theory Spec2Isabelle
  imports Main
begin

section \<open>Python values, dictionaries and exceptions\<close>

text \<open>
  The driver \<^verbatim>\<open>VIFHotPlugPluggingDriver\<close> of
  \<^verbatim>\<open>neutron/plugins/cisco/device_manager/plugging_drivers/vif_hotplug_plugging_driver.py\<close>
  handles identifiers (strings or \<^verbatim>\<open>None\<close>) and port dictionaries. A Python value
  is one of the shapes the driver builds or inspects; \<open>ATTR_NOT_SPECIFIED\<close> is the
  sentinel object of \<^verbatim>\<open>neutron.api.v2.attributes\<close>.
\<close>

datatype pyval =
    PyNone
  | PyStr string
  | PyBool bool
  | PyList "pyval list"
  | PyDict "(string \<times> pyval) list"
  | ATTR_NOT_SPECIFIED

type_synonym pydict = "(string \<times> pyval) list"

text \<open>Python truth value testing, as used by \<^verbatim>\<open>and\<close> in a condition.\<close>

fun truthy :: "pyval \<Rightarrow> bool" where
  "truthy PyNone = False"
| "truthy (PyStr s) = (s \<noteq> [])"
| "truthy (PyBool b) = b"
| "truthy (PyList xs) = (xs \<noteq> [])"
| "truthy (PyDict d) = (d \<noteq> [])"
| "truthy ATTR_NOT_SPECIFIED = True"

text \<open>
  The exceptions (instances of \<^verbatim>\<open>Exception\<close>) that occur. In neutron,
  \<^verbatim>\<open>PortNotFound\<close> is a subclass of \<^verbatim>\<open>NotFound\<close>, itself a subclass of
  \<^verbatim>\<open>NeutronException\<close>. The constructor \<open>NeutronException\<close> stands for any
  neutron exception that is not a \<^verbatim>\<open>PortNotFound\<close>; \<^verbatim>\<open>KeyError\<close> and \<^verbatim>\<open>TypeError\<close>
  are raised by subscripting, \<^verbatim>\<open>ValueError\<close> and \<^verbatim>\<open>OverflowError\<close> by
  \<^verbatim>\<open>time.sleep\<close>; \<open>OtherException\<close> stands for any other exception outside the
  neutron hierarchy.
\<close>

datatype exn =
    PortNotFound
  | NeutronException
  | KeyError
  | TypeError
  | ValueError
  | OverflowError
  | OtherException

fun isinstance_PortNotFound :: "exn \<Rightarrow> bool" where
  "isinstance_PortNotFound PortNotFound = True"
| "isinstance_PortNotFound e = False"

fun isinstance_NeutronException :: "exn \<Rightarrow> bool" where
  "isinstance_NeutronException PortNotFound = True"
| "isinstance_NeutronException NeutronException = True"
| "isinstance_NeutronException e = False"

text \<open>\<^verbatim>\<open>d[k]\<close> raises \<^verbatim>\<open>KeyError\<close> on a missing key; \<^verbatim>\<open>d.get(k)\<close> gives \<^verbatim>\<open>None\<close>.\<close>

definition dict_getitem :: "pydict \<Rightarrow> string \<Rightarrow> exn + pyval" where
  "dict_getitem d k = (case map_of d k of None \<Rightarrow> Inl KeyError | Some v \<Rightarrow> Inr v)"

definition dict_get :: "pydict \<Rightarrow> string \<Rightarrow> pyval" where
  "dict_get d k = (case map_of d k of None \<Rightarrow> PyNone | Some v \<Rightarrow> v)"

text \<open>Subscripting a variable that holds a dictionary or \<^verbatim>\<open>None\<close>: \<^verbatim>\<open>None['id']\<close>
  raises \<^verbatim>\<open>TypeError\<close>.\<close>

definition getitem :: "pydict option \<Rightarrow> string \<Rightarrow> exn + pyval" where
  "getitem obj k = (case obj of None \<Rightarrow> Inl TypeError | Some d \<Rightarrow> dict_getitem d k)"


section \<open>The collaborators of the driver\<close>

text \<open>
  Modelled from the spec: the caller-supplied context object (section 6: it "provides an
  elevated() transform yielding an administrative-privilege variant of itself"); the
  class \<^verbatim>\<open>neutron.context.Context\<close> is not part of the source file.
\<close>

record ctx =
  ctx_tenant :: pyval
  ctx_is_admin :: bool

definition elevated :: "ctx \<Rightarrow> ctx" where
  "elevated c = c\<lparr>ctx_is_admin := True\<rparr>"

text \<open>
  Modelled from the spec: a row of the port table (section 3, "Port": identifier, owning
  network identifier, device-id, device-owner, tenant); the class
  \<^verbatim>\<open>models_v2.Port\<close> is not part of the source file. Its columns are strings.
\<close>

record port_row =
  row_id :: string
  network_id :: string
  device_id :: string
  device_owner :: string
  port_tenant :: string

datatype loglevel = Debug | Info | Warning | Error

text \<open>
  What a run of the driver does to the outside is recorded, in order, as a list of
  events: each call of a collaborator with its arguments, each \<^verbatim>\<open>LOG\<close> call with its
  level, each \<^verbatim>\<open>time.sleep\<close> carried out with its number of seconds, and each entry
  into \<^verbatim>\<open>delete_hosting_device_resources\<close> with its arguments (what a mock of that
  method would see).
\<close>

datatype event =
    Create_port ctx pydict
  | Delete_port ctx pyval
  | Update_port ctx pyval pydict
  | L3_tenant_id
  | Interface_attach pyval pyval
  | Interface_detach pyval pyval
  | Sleep int
  | Log loglevel
  | Delete_hosting_device_resources ctx pyval "pydict option"

text \<open>
  Modelled from the spec: the registry client \<^verbatim>\<open>_core_plugin\<close>, the device manager
  \<^verbatim>\<open>_dev_mgr\<close> with its compute client \<^verbatim>\<open>svc_vm_mgr\<close>, and the port table behind
  \<^verbatim>\<open>context.session\<close> (section 6) are not part of the source file. They are
  parameters: each operation is any function from the collaborators' state \<open>'s\<close> to a
  result (an exception or a value) and the next state.
\<close>

record 's env =
  create_port :: "ctx \<Rightarrow> pydict \<Rightarrow> 's \<Rightarrow> (exn + pydict) \<times> 's"
  delete_port :: "ctx \<Rightarrow> pyval \<Rightarrow> 's \<Rightarrow> (exn + unit) \<times> 's"
  update_port :: "ctx \<Rightarrow> pyval \<Rightarrow> pydict \<Rightarrow> 's \<Rightarrow> (exn + unit) \<times> 's"
  l3_tenant_id :: "'s \<Rightarrow> (exn + pyval) \<times> 's"
  interface_attach :: "pyval \<Rightarrow> pyval \<Rightarrow> 's \<Rightarrow> (exn + unit) \<times> 's"
  interface_detach :: "pyval \<Rightarrow> pyval \<Rightarrow> 's \<Rightarrow> (exn + unit) \<times> 's"
  port_rows :: "'s \<Rightarrow> port_row list"

record 's world =
  ext :: 's
  trace :: "event list"

text \<open>Calling a collaborator: the event is recorded and the collaborator's state moves.\<close>

definition call :: "event \<Rightarrow> ('s \<Rightarrow> 'r \<times> 's) \<Rightarrow> 's world \<Rightarrow> 'r \<times> 's world" where
  "call ev op w = (case op (ext w) of (r, x) \<Rightarrow> (r, \<lparr>ext = x, trace = trace w @ [ev]\<rparr>))"

definition LOG :: "loglevel \<Rightarrow> 's world \<Rightarrow> 's world" where
  "LOG lvl w = w\<lparr>trace := trace w @ [Log lvl]\<rparr>"

text \<open>
  \<^verbatim>\<open>time.sleep(secs)\<close> of the standard library, for an integer argument. A negative
  argument raises \<^verbatim>\<open>ValueError\<close>. The interpreter keeps a duration as a signed 64-bit
  count of nanoseconds: a number of seconds that does not fit, one above \<open>sleep_max\<close>,
  raises \<^verbatim>\<open>OverflowError\<close>. In both cases nothing has been slept and no event is
  recorded. Otherwise the call blocks for that long and returns.
\<close>

definition sleep_max :: int where
  "sleep_max = (2 ^ 63 - 1) div 10 ^ 9"

definition time_sleep :: "int \<Rightarrow> 's world \<Rightarrow> (exn + unit) \<times> 's world" where
  "time_sleep secs w =
     (if secs < 0 then (Inl ValueError, w)
      else if sleep_max < secs then (Inl OverflowError, w)
      else (Inr (), w\<lparr>trace := trace w @ [Sleep secs]\<rparr>))"


section \<open>The retry decorator\<close>

text \<open>
  \<^verbatim>\<open>
  def retry(ExceptionToCheck, tries=4, delay=3, backoff=2):
      def deco_retry(f):
          def f_retry(*args, **kwargs):
              mtries, mdelay = tries, delay
              while mtries > 1:
                  try:
                      return f(*args, **kwargs)
                  except ExceptionToCheck as e:
                      LOG.error(...)
                      time.sleep(mdelay)
                      mtries -= 1
                      mdelay *= backoff
              return f(*args, **kwargs)
          return f_retry
      return deco_retry
  \<close>
  \<open>ExceptionToCheck\<close> (a class or a tuple of classes) is the predicate "is an instance
  of"; \<open>f\<close> is the decorated function applied to its arguments. The loop is the
  recursive function \<open>f_retry_loop\<close>; it stops because \<open>mtries\<close> decreases. An
  exception raised by \<^verbatim>\<open>time.sleep\<close> inside the handler leaves the decorated call.
\<close>

function f_retry_loop ::
  "(exn \<Rightarrow> bool) \<Rightarrow> int \<Rightarrow> ('s world \<Rightarrow> (exn + 'a) \<times> 's world) \<Rightarrow> int \<Rightarrow> int \<Rightarrow>
     's world \<Rightarrow> (exn + 'a) \<times> 's world" where
  "f_retry_loop ExceptionToCheck backoff f mtries mdelay w =
     (if mtries > 1 then
        (case f w of
           (Inr v, w') \<Rightarrow> (Inr v, w')
         | (Inl e, w') \<Rightarrow>
             if ExceptionToCheck e then
               (case time_sleep mdelay (LOG Error w') of
                  (Inl e', w'') \<Rightarrow> (Inl e', w'')
                | (Inr u, w'') \<Rightarrow>
                    f_retry_loop ExceptionToCheck backoff f (mtries - 1) (mdelay * backoff)
                      w'')
             else (Inl e, w'))
      else f w)"
  by pat_completeness auto
termination
  by (relation "measure (\<lambda>(c, b, f, mtries, mdelay, w). nat mtries)") auto

declare f_retry_loop.simps [simp del]

definition retry ::
  "(exn \<Rightarrow> bool) \<Rightarrow> int \<Rightarrow> int \<Rightarrow> int \<Rightarrow> ('s world \<Rightarrow> (exn + 'a) \<times> 's world) \<Rightarrow>
     's world \<Rightarrow> (exn + 'a) \<times> 's world" where
  "retry ExceptionToCheck tries delay backoff f w =
     f_retry_loop ExceptionToCheck backoff f tries delay w"

section \<open>The driver\<close>

definition DELETION_ATTEMPTS :: int where
  "DELETION_ATTEMPTS = 4"

definition SECONDS_BETWEEN_DELETION_ATTEMPTS :: int where
  "SECONDS_BETWEEN_DELETION_ATTEMPTS = 3"

subsection \<open>Deleting the management port\<close>

text \<open>
  \<^verbatim>\<open>
  @retry(n_exc.NeutronException, DELETION_ATTEMPTS, 1)
  def _delete_resource_port(self, context, port_id):
      try:
          self._core_plugin.delete_port(context, port_id)
          LOG.info(...)
      except n_exc.PortNotFound:
          LOG.warning(...)
  \<close>
  \<open>delete_resource_port_body\<close> is the function before decoration,
  \<open>delete_resource_port\<close> the decorated one; \<open>backoff\<close> has its default 2.
\<close>

definition delete_resource_port_body ::
  "'s env \<Rightarrow> ctx \<Rightarrow> pyval \<Rightarrow> 's world \<Rightarrow> (exn + unit) \<times> 's world" where
  "delete_resource_port_body env context port_id w =
     (case call (Delete_port context port_id) (delete_port env context port_id) w of
        (Inr u, w') \<Rightarrow> (Inr (), LOG Info w')
      | (Inl e, w') \<Rightarrow>
          if isinstance_PortNotFound e then (Inr (), LOG Warning w') else (Inl e, w'))"

definition delete_resource_port ::
  "'s env \<Rightarrow> ctx \<Rightarrow> pyval \<Rightarrow> 's world \<Rightarrow> (exn + unit) \<times> 's world" where
  "delete_resource_port env context port_id =
     retry isinstance_NeutronException DELETION_ATTEMPTS 1 2
       (delete_resource_port_body env context port_id)"

text \<open>
  \<^verbatim>\<open>
  def delete_hosting_device_resources(self, context, tenant_id, mgmt_port, **kwargs):
      if mgmt_port is not None:
          try:
              self._delete_resource_port(context, mgmt_port['id'])
          except n_exc.NeutronException as e:
              LOG.error(...)
  \<close>
  The entry into the method is recorded first. The handler reads
  \<^verbatim>\<open>mgmt_port['id']\<close> again for its message; it is reached only after that
  subscript has succeeded in the \<^verbatim>\<open>try\<close> block.
\<close>

definition delete_hosting_device_resources ::
  "'s env \<Rightarrow> ctx \<Rightarrow> pyval \<Rightarrow> pydict option \<Rightarrow> 's world \<Rightarrow> (exn + unit) \<times> 's world" where
  "delete_hosting_device_resources env context tenant_id mgmt_port w0 =
     (let w = w0\<lparr>trace := trace w0 @ [Delete_hosting_device_resources context tenant_id mgmt_port]\<rparr>
      in case mgmt_port of
           None \<Rightarrow> (Inr (), w)
         | Some p \<Rightarrow>
             (case (case dict_getitem p ''id'' of
                      Inl e \<Rightarrow> (Inl e, w)
                    | Inr port_id \<Rightarrow> delete_resource_port env context port_id w) of
                (Inr u, w') \<Rightarrow> (Inr (), w')
              | (Inl e, w') \<Rightarrow>
                  if isinstance_NeutronException e then (Inr (), LOG Error w')
                  else (Inl e, w')))"

subsection \<open>Creating the management port\<close>

text \<open>
  The bundle a provisioning or query operation returns: the dictionary
  \<^verbatim>\<open>{'mgmt_port': mgmt_port}\<close> of \<^verbatim>\<open>get_hosting_device_resources\<close>, extended by
  the key \<^verbatim>\<open>'ports'\<close> in \<^verbatim>\<open>create_hosting_device_resources\<close>.
\<close>

record 'p resources =
  mgmt_port :: "'p option"

record 'p resources_with_ports = "'p resources" +
  ports :: "'p list"

text \<open>
  \<^verbatim>\<open>
  def create_hosting_device_resources(self, context, complementary_id, tenant_id,
                                      mgmt_context, max_hosted):
      mgmt_port = None
      if mgmt_context and mgmt_context.get('mgmt_nw_id') and tenant_id:
          p_spec = {'port': {...}}
          try:
              mgmt_port = self._core_plugin.create_port(context, p_spec)
          except n_exc.NeutronException as e:
              LOG.error(...)
              self.delete_hosting_device_resources(context, tenant_id, mgmt_port)
              mgmt_port = None
      return {'mgmt_port': mgmt_port, 'ports': []}
  \<close>
  \<open>mgmt_context\<close> is a dictionary or \<^verbatim>\<open>None\<close>; an empty dictionary is false. When
  \<^verbatim>\<open>create_port\<close> raises, the assignment to \<^verbatim>\<open>mgmt_port\<close> has not happened, so the
  handler passes the initial value of the variable.
\<close>

definition p_spec :: "pyval \<Rightarrow> pyval \<Rightarrow> pyval \<Rightarrow> pydict" where
  "p_spec tenant_id mgmt_nw_id complementary_id =
     [(''port'', PyDict
        [(''tenant_id'', tenant_id),
         (''admin_state_up'', PyBool True),
         (''name'', PyStr ''mgmt''),
         (''network_id'', mgmt_nw_id),
         (''mac_address'', ATTR_NOT_SPECIFIED),
         (''fixed_ips'', ATTR_NOT_SPECIFIED),
         (''device_id'', PyStr ''''),
         (''device_owner'', complementary_id)])]"

definition create_hosting_device_resources ::
  "'s env \<Rightarrow> ctx \<Rightarrow> pyval \<Rightarrow> pyval \<Rightarrow> pydict option \<Rightarrow> pyval \<Rightarrow> 's world \<Rightarrow>
     (exn + pydict resources_with_ports) \<times> 's world" where
  "create_hosting_device_resources env context complementary_id tenant_id mgmt_context
       max_hosted w =
     (let mgmt_port0 = None in
      if (case mgmt_context of
            None \<Rightarrow> False
          | Some mc \<Rightarrow> mc \<noteq> [] \<and> truthy (dict_get mc ''mgmt_nw_id'')) \<and> truthy tenant_id
      then
        (case getitem mgmt_context ''mgmt_nw_id'' of
           Inl e \<Rightarrow> (Inl e, w)
         | Inr nw \<Rightarrow>
             (let spec = p_spec tenant_id nw complementary_id in
              case call (Create_port context spec) (create_port env context spec) w of
                (Inr port, w') \<Rightarrow> (Inr \<lparr>mgmt_port = Some port, ports = []\<rparr>, w')
              | (Inl e, w') \<Rightarrow>
                  if isinstance_NeutronException e then
                    (case delete_hosting_device_resources env context tenant_id mgmt_port0
                            (LOG Error w') of
                       (Inl e', w'') \<Rightarrow> (Inl e', w'')
                     | (Inr u, w'') \<Rightarrow> (Inr \<lparr>mgmt_port = None, ports = []\<rparr>, w''))
                  else (Inl e, w')))
      else (Inr \<lparr>mgmt_port = mgmt_port0, ports = []\<rparr>, w))"

subsection \<open>Finding the management port\<close>

text \<open>
  \<^verbatim>\<open>
  def get_hosting_device_resources(self, context, id, complementary_id, tenant_id,
                                   mgmt_nw_id):
      mgmt_port = None
      query = context.session.query(models_v2.Port)
      query = query.filter(expr.or_(
          models_v2.Port.device_id == id,
          models_v2.Port.device_owner == complementary_id))
      for port in query:
          if port['network_id'] != mgmt_nw_id:
              LOG.debug(...)
          else:
              mgmt_port = port
              break
      return {'mgmt_port': mgmt_port}
  \<close>
  The query yields the rows of the port table that pass the filter, in the table's
  enumeration order; \<open>for_port_in\<close> is the \<^verbatim>\<open>for\<close> loop.
\<close>

fun for_port_in :: "pyval \<Rightarrow> port_row list \<Rightarrow> 's world \<Rightarrow> port_row option \<times> 's world" where
  "for_port_in mgmt_nw_id [] w = (None, w)"
| "for_port_in mgmt_nw_id (port # rest) w =
     (if PyStr (network_id port) \<noteq> mgmt_nw_id then for_port_in mgmt_nw_id rest (LOG Debug w)
      else (Some port, w))"

definition get_hosting_device_resources ::
  "'s env \<Rightarrow> ctx \<Rightarrow> pyval \<Rightarrow> pyval \<Rightarrow> pyval \<Rightarrow> pyval \<Rightarrow> 's world \<Rightarrow>
     port_row resources \<times> 's world" where
  "get_hosting_device_resources env context hd_id complementary_id tenant_id mgmt_nw_id w =
     (let query = filter (\<lambda>port. PyStr (device_id port) = hd_id \<or>
                                  PyStr (device_owner port) = complementary_id)
                    (port_rows env (ext w))
      in case for_port_in mgmt_nw_id query w of
           (found, w') \<Rightarrow> (\<lparr>mgmt_port = found\<rparr>, w'))"

subsection \<open>Attaching and detaching a logical port\<close>

text \<open>
  \<^verbatim>\<open>
  def setup_logical_port_connectivity(self, context, port_db, hosting_device_id):
      l3admin_tenant_id = self._dev_mgr.l3_tenant_id()
      self._core_plugin.update_port(
          context.elevated(), port_db['id'],
          {'port': {'device_owner': '', 'device_id': '', 'tenant_id': l3admin_tenant_id}})
      try:
          self._dev_mgr.svc_vm_mgr.interface_attach(hosting_device_id, port_db['id'])
          LOG.debug(...)
      except Exception as e:
          LOG.error(...)
  \<close>
  The call of \<^verbatim>\<open>update_port\<close> stands before the \<^verbatim>\<open>try\<close> statement. Every value
  of \<open>exn\<close> is an instance of \<^verbatim>\<open>Exception\<close>, so the handler takes them all.
\<close>

definition ownership_reset :: "pyval \<Rightarrow> pydict" where
  "ownership_reset l3admin_tenant_id =
     [(''port'', PyDict
        [(''device_owner'', PyStr ''''),
         (''device_id'', PyStr ''''),
         (''tenant_id'', l3admin_tenant_id)])]"

definition setup_logical_port_connectivity ::
  "'s env \<Rightarrow> ctx \<Rightarrow> pydict option \<Rightarrow> pyval \<Rightarrow> 's world \<Rightarrow> (exn + unit) \<times> 's world" where
  "setup_logical_port_connectivity env context port_db hosting_device_id w =
     (case call L3_tenant_id (l3_tenant_id env) w of
        (Inl e, w1) \<Rightarrow> (Inl e, w1)
      | (Inr l3admin_tenant_id, w1) \<Rightarrow>
          (case getitem port_db ''id'' of
             Inl e \<Rightarrow> (Inl e, w1)
           | Inr pid \<Rightarrow>
               (case call (Update_port (elevated context) pid (ownership_reset l3admin_tenant_id))
                       (update_port env (elevated context) pid
                          (ownership_reset l3admin_tenant_id)) w1 of
                  (Inl e, w2) \<Rightarrow> (Inl e, w2)
                | (Inr u, w2) \<Rightarrow>
                    (case (case getitem port_db ''id'' of
                             Inl e \<Rightarrow> (Inl e, w2)
                           | Inr pid' \<Rightarrow>
                               (case call (Interface_attach hosting_device_id pid')
                                       (interface_attach env hosting_device_id pid') w2 of
                                  (Inl e, w3) \<Rightarrow> (Inl e, w3)
                                | (Inr u', w3) \<Rightarrow> (Inr (), LOG Debug w3))) of
                       (Inl e, w3) \<Rightarrow> (Inr (), LOG Error w3)
                     | (Inr u', w3) \<Rightarrow> (Inr (), w3)))))"

text \<open>
  \<^verbatim>\<open>
  def teardown_logical_port_connectivity(self, context, port_db, hosting_device_id):
      if port_db is None or port_db.get('id') is None:
          LOG.error(...)
          return
      try:
          self._dev_mgr.svc_vm_mgr.interface_detach(hosting_device_id, port_db['id'])
          LOG.debug(...)
      except Exception as e:
          LOG.error(...)
  \<close>
\<close>

definition teardown_logical_port_connectivity ::
  "'s env \<Rightarrow> ctx \<Rightarrow> pydict option \<Rightarrow> pyval \<Rightarrow> 's world \<Rightarrow> (exn + unit) \<times> 's world" where
  "teardown_logical_port_connectivity env context port_db hosting_device_id w =
     (if (case port_db of None \<Rightarrow> True | Some d \<Rightarrow> dict_get d ''id'' = PyNone)
      then (Inr (), LOG Error w)
      else
        (case (case getitem port_db ''id'' of
                 Inl e \<Rightarrow> (Inl e, w)
               | Inr pid \<Rightarrow>
                   (case call (Interface_detach hosting_device_id pid)
                           (interface_detach env hosting_device_id pid) w of
                      (Inl e, w') \<Rightarrow> (Inl e, w')
                    | (Inr u, w') \<Rightarrow> (Inr (), LOG Debug w'))) of
           (Inl e, w') \<Rightarrow> (Inr (), LOG Error w')
         | (Inr u, w') \<Rightarrow> (Inr (), w')))"

section \<open>Auxiliary definitions\<close>

text \<open>
  The events of \<open>n\<close> failed attempts of a decorated operation whose invocation is seen
  as the event \<open>ev\<close>: the invocation, the error message of the handler, and the sleep,
  whose length starts at \<open>delay\<close> and is multiplied by \<open>backoff\<close> each time.
\<close>

definition backoff_events :: "event \<Rightarrow> int \<Rightarrow> int \<Rightarrow> nat \<Rightarrow> event list" where
  "backoff_events ev delay backoff n =
     concat (map (\<lambda>i. [ev, Log Error, Sleep (delay * backoff ^ i)]) [0..<n])"

text \<open>The lengths that \<open>time_sleep\<close> accepts.\<close>

definition sleepable :: "int \<Rightarrow> bool" where
  "sleepable secs = (0 \<le> secs \<and> secs \<le> sleep_max)"

text \<open>
  Test doubles for concrete runs. \<open>stub_env\<close> keeps a port table as its state:
  \<^verbatim>\<open>delete_port\<close> removes the rows with the given identifier and raises
  \<^verbatim>\<open>PortNotFound\<close> when there is none; the other operations give fixed outcomes.
  \<open>stub_op\<close> is an operation that is seen as the event \<open>ev\<close> and always raises \<open>e\<close>.
\<close>

definition stub_env ::
  "(exn + pydict) \<Rightarrow> (exn + unit) \<Rightarrow> (exn + unit) \<Rightarrow> (exn + unit) \<Rightarrow> port_row list env" where
  "stub_env created updated attached detached =
     \<lparr>create_port = (\<lambda>c spec x. (created, x)),
      delete_port = (\<lambda>c p x.
         if p \<in> set (map (\<lambda>r. PyStr (row_id r)) x)
         then (Inr (), filter (\<lambda>r. PyStr (row_id r) \<noteq> p) x)
         else (Inl PortNotFound, x)),
      update_port = (\<lambda>c p d x. (updated, x)),
      l3_tenant_id = (\<lambda>x. (Inr (PyStr ''l3admin''), x)),
      interface_attach = (\<lambda>h p x. (attached, x)),
      interface_detach = (\<lambda>h p x. (detached, x)),
      port_rows = (\<lambda>x. x)\<rparr>"

definition stub_op :: "exn \<Rightarrow> event \<Rightarrow> unit world \<Rightarrow> (exn + unit) \<times> unit world" where
  "stub_op e ev w = call ev (\<lambda>x. (Inl e, x)) w"

definition user_ctx :: ctx where
  "user_ctx = \<lparr>ctx_tenant = PyStr ''t1'', ctx_is_admin = False\<rparr>"

definition port_p1 :: pydict where
  "port_p1 = [(''id'', PyStr ''p1''), (''network_id'', PyStr ''mgmt'')]"

definition row_p1 :: port_row where
  "row_p1 = \<lparr>row_id = ''p1'', network_id = ''mgmt'', device_id = ''hd1'',
             device_owner = '''', port_tenant = ''t1''\<rparr>"

definition row_p2 :: port_row where
  "row_p2 = \<lparr>row_id = ''p2'', network_id = ''mgmt'', device_id = '''',
             device_owner = ''comp1'', port_tenant = ''t1''\<rparr>"

definition row_p3 :: port_row where
  "row_p3 = \<lparr>row_id = ''p3'', network_id = ''data'', device_id = ''hd1'',
             device_owner = ''comp1'', port_tenant = ''t1''\<rparr>"

text \<open>A registry whose \<^verbatim>\<open>create_port\<close>, \<^verbatim>\<open>update_port\<close> and \<^verbatim>\<open>delete_port\<close> always raise a
  registry error, and a compute client whose operations always raise.\<close>

definition failing_env :: "port_row list env" where
  "failing_env =
     (stub_env (Inl NeutronException) (Inl NeutronException) (Inl OtherException)
        (Inl OtherException))
       \<lparr>delete_port := (\<lambda>c p x. (Inl NeutronException, x))\<rparr>"

section \<open>Basic facts\<close>

lemma trace_LOG [simp]: "trace (LOG lvl w) = trace w @ [Log lvl]"
  by (simp add: LOG_def)

lemma ext_LOG [simp]: "ext (LOG lvl w) = ext w"
  by (simp add: LOG_def)

lemma time_sleep_sleepable:
  "sleepable d \<Longrightarrow> time_sleep d w = (Inr (), w\<lparr>trace := trace w @ [Sleep d]\<rparr>)"
  by (simp add: time_sleep_def sleepable_def)

lemma time_sleep_negative: "d < 0 \<Longrightarrow> time_sleep d w = (Inl ValueError, w)"
  by (simp add: time_sleep_def)

lemma time_sleep_too_long: "sleep_max < d \<Longrightarrow> time_sleep d w = (Inl OverflowError, w)"
  by (simp add: time_sleep_def sleep_max_def)

lemma call_eq:
  "op (ext w) = (r, x) \<Longrightarrow> call ev op w = (r, \<lparr>ext = x, trace = trace w @ [ev]\<rparr>)"
  by (simp add: call_def)

lemma world_eqI: "ext w = x \<Longrightarrow> trace w = t \<Longrightarrow> w = \<lparr>ext = x, trace = t\<rparr>"
  by (cases w) simp


section \<open>Properties of the retry decorator\<close>

lemma f_retry_loop_last: "\<not> 1 < mtries \<Longrightarrow> f_retry_loop c b f mtries mdelay w = f w"
  by (simp add: f_retry_loop.simps)

lemma f_retry_loop_raise:
  "f w = (Inl e, w') \<Longrightarrow> \<not> c e \<Longrightarrow> f_retry_loop c b f mtries mdelay w = (Inl e, w')"
  by (simp add: f_retry_loop.simps)

lemma f_retry_loop_return:
  "f w = (Inr v, w') \<Longrightarrow> f_retry_loop c b f mtries mdelay w = (Inr v, w')"
  by (simp add: f_retry_loop.simps)

lemma f_retry_loop_again:
  "1 < mtries \<Longrightarrow> f w = (Inl e, w') \<Longrightarrow> c e \<Longrightarrow> sleepable mdelay \<Longrightarrow>
   f_retry_loop c b f mtries mdelay w =
     f_retry_loop c b f (mtries - 1) (mdelay * b)
       (w'\<lparr>trace := trace w' @ [Log Error, Sleep mdelay]\<rparr>)"
  by (subst f_retry_loop.simps) (simp add: time_sleep_sleepable LOG_def)

lemma f_retry_loop_sleep_raises:
  "1 < mtries \<Longrightarrow> f w = (Inl e, w') \<Longrightarrow> c e \<Longrightarrow>
   time_sleep mdelay (LOG Error w') = (Inl e', w'') \<Longrightarrow>
   f_retry_loop c b f mtries mdelay w = (Inl e', w'')"
  by (subst f_retry_loop.simps) simp

lemma sleepable_first: "\<forall>i<Suc n. sleepable (mdelay * b ^ i) \<Longrightarrow> sleepable mdelay"
  by (drule spec [of _ 0]) simp

lemma sleepable_rest:
  "\<forall>i<Suc n. sleepable (mdelay * b ^ i) \<Longrightarrow> \<forall>i<n. sleepable (mdelay * b * b ^ i)"
proof (intro allI impI)
  fix i
  assume all: "\<forall>i<Suc n. sleepable (mdelay * b ^ i)" and i: "i < n"
  from i have "Suc i < Suc n" by simp
  with all have "sleepable (mdelay * b ^ Suc i)" by blast
  then show "sleepable (mdelay * b * b ^ i)" by (simp add: mult.assoc)
qed

lemma backoff_events_0 [simp]: "backoff_events ev delay backoff 0 = []"
  by (simp add: backoff_events_def)

lemma backoff_events_Suc:
  "backoff_events ev delay backoff (Suc n) =
     [ev, Log Error, Sleep delay] @ backoff_events ev (delay * backoff) backoff n"
proof -
  have "[0..<Suc n] = 0 # map Suc [0..<n]"
    by (simp add: upt_conv_Cons map_Suc_upt del: upt_Suc)
  then show ?thesis
    by (simp add: backoff_events_def comp_def mult.assoc del: upt_Suc)
qed

text \<open>
  When every invocation raises an exception of a checked class and \<open>time_sleep\<close>
  accepts every length asked of it, the loop makes \<open>nat (mtries - 1)\<close> trapped
  invocations, each followed by the error message and the sleep, and its result is the
  result of one more invocation.
\<close>

lemma f_retry_loop_exhausted:
  assumes fails: "\<forall>w. \<exists>e w'. f w = (Inl e, w') \<and> c e \<and> trace w' = trace w @ [ev]"
  shows "n = nat (mtries - 1) \<Longrightarrow> \<forall>i<n. sleepable (mdelay * b ^ i) \<Longrightarrow>
         \<exists>wl. f_retry_loop c b f mtries mdelay w = f wl \<and>
              trace wl = trace w @ backoff_events ev mdelay b n"
proof (induction n arbitrary: mtries mdelay w)
  case 0
  then have "\<not> 1 < mtries" by simp
  then show ?case
    by (intro exI [of _ w]) (simp add: f_retry_loop_last)
next
  case (Suc n)
  from fails obtain e w' where fw: "f w = (Inl e, w')" "c e" "trace w' = trace w @ [ev]"
    by blast
  let ?w1 = "w'\<lparr>trace := trace w' @ [Log Error, Sleep mdelay]\<rparr>"
  from Suc.prems(1) have gt: "1 < mtries" and n: "n = nat ((mtries - 1) - 1)"
    by simp_all
  note s0 = sleepable_first [OF Suc.prems(2)] and rest = sleepable_rest [OF Suc.prems(2)]
  from Suc.IH [OF n rest] obtain wl where
    wl: "f_retry_loop c b f (mtries - 1) (mdelay * b) ?w1 = f wl"
        "trace wl = trace ?w1 @ backoff_events ev (mdelay * b) b n"
    by blast
  have "f_retry_loop c b f mtries mdelay w = f wl"
    using f_retry_loop_again [where c = c and f = f and w = w and e = e, OF gt fw(1) fw(2) s0]
      wl(1)
    by simp
  moreover have "trace wl = trace w @ backoff_events ev mdelay b (Suc n)"
    using wl(2) fw(3) by (simp add: backoff_events_Suc)
  ultimately show ?case by blast
qed

text \<open>
  Within the domain the docstring of \<^verbatim>\<open>retry\<close> describes (\<open>tries\<close> is the number of
  times to try, at least one; the delays are lengths that \<^verbatim>\<open>time.sleep\<close> accepts): when
  every invocation of \<open>f\<close>, seen as the event \<open>ev\<close>, raises an exception of a checked
  class, the wrapped call makes \<open>tries - 1\<close> invocations inside the error trap, each
  followed by an error message and a sleep, the sleeps being
  \<open>delay, delay * backoff, delay * backoff\<^sup>2, \<dots>\<close>, and then one last invocation whose
  exception and state are the result of the wrapped call.
\<close>

lemma retry_exhausted:
  assumes fails:
    "\<forall>w. \<exists>e w'. f w = (Inl e, w') \<and> ExceptionToCheck e \<and> trace w' = trace w @ [ev]"
    and tries: "1 \<le> tries"
    and sleeps: "\<forall>i<nat (tries - 1). sleepable (delay * backoff ^ i)"
  shows "\<exists>wl e w'.
           retry ExceptionToCheck tries delay backoff f w = (Inl e, w') \<and>
           f wl = (Inl e, w') \<and> ExceptionToCheck e \<and>
           trace wl = trace w @
             concat (map (\<lambda>i. [ev, Log Error, Sleep (delay * backoff ^ i)])
                       [0..<nat (tries - 1)]) \<and>
           trace w' = trace wl @ [ev]"
proof -
  from f_retry_loop_exhausted [OF fails refl sleeps, of w] obtain wl where
    wl: "f_retry_loop ExceptionToCheck backoff f tries delay w = f wl"
        "trace wl = trace w @ backoff_events ev delay backoff (nat (tries - 1))"
    by blast
  from fails obtain e w' where
    "f wl = (Inl e, w')" "ExceptionToCheck e" "trace w' = trace wl @ [ev]"
    by blast
  with wl show ?thesis
    unfolding retry_def backoff_events_def
    by (intro exI [of _ wl] exI [of _ e] exI [of _ w']) simp
qed

text \<open>
  A negative delay is refused by \<^verbatim>\<open>time.sleep\<close>: its \<^verbatim>\<open>ValueError\<close> leaves the
  handler after the first invocation and its error message.
\<close>

lemma retry_negative_delay:
  "retry isinstance_NeutronException 3 (- 1) 2
     (stub_op NeutronException (Delete_port user_ctx (PyStr ''p1'')))
     \<lparr>ext = (), trace = []\<rparr> =
   (Inl ValueError,
    \<lparr>ext = (), trace = [Delete_port user_ctx (PyStr ''p1''), Log Error]\<rparr>)"
proof -
  let ?ev = "Delete_port user_ctx (PyStr ''p1'')"
  let ?w = "\<lparr>ext = (), trace = []\<rparr> :: unit world"
  have f: "stub_op NeutronException ?ev ?w = (Inl NeutronException, \<lparr>ext = (), trace = [?ev]\<rparr>)"
    by (simp add: stub_op_def call_def)
  have s: "time_sleep (- 1) (LOG Error \<lparr>ext = (), trace = [?ev]\<rparr>) =
             (Inl ValueError, \<lparr>ext = (), trace = [?ev, Log Error]\<rparr> :: unit world)"
    by (simp add: time_sleep_negative LOG_def)
  have "f_retry_loop isinstance_NeutronException 2 (stub_op NeutronException ?ev) 3 (- 1) ?w =
          (Inl ValueError, \<lparr>ext = (), trace = [?ev, Log Error]\<rparr>)"
    by (rule f_retry_loop_sleep_raises
          [where f = "stub_op NeutronException ?ev" and w = ?w and e = NeutronException,
           OF _ f _ s]) simp_all
  then show ?thesis by (simp add: retry_def)
qed

text \<open>
  Claim C3. The claim says that an operation failing with a retryable error on every
  invocation is invoked exactly \<open>tries\<close> times, and the docstring of \<^verbatim>\<open>retry\<close> calls
  \<open>tries\<close> the "number of times to try (not retry) before giving up". At \<open>tries = 0\<close>
  the code does otherwise: the loop \<^verbatim>\<open>while mtries > 1\<close> is not entered and the final
  \<^verbatim>\<open>return f(*args, **kwargs)\<close> still invokes the operation. The wrapped call makes one
  invocation, not zero, and raises its error.
\<close>

theorem retry_zero_tries_invokes_once:
  "retry isinstance_NeutronException 0 3 2
     (stub_op NeutronException (Delete_port user_ctx (PyStr ''p1'')))
     \<lparr>ext = (), trace = []\<rparr> =
   (Inl NeutronException, \<lparr>ext = (), trace = [Delete_port user_ctx (PyStr ''p1'')]\<rparr>)"
  by (simp add: retry_def f_retry_loop_last stub_op_def call_def)

text \<open>
  Claim C8. If an invocation of the wrapped operation raises an exception that is not of
  a checked class, that exception is the result of the wrapped call, together with the
  state the invocation left: nothing is logged, there is no sleep and no further
  invocation. This holds in every round of the loop (any \<open>mtries\<close> and \<open>mdelay\<close>), and
  so for the wrapped call itself.
\<close>

theorem retry_non_matching_propagates:
  assumes "f w = (Inl e, w')" and "\<not> ExceptionToCheck e"
  shows "f_retry_loop ExceptionToCheck backoff f mtries mdelay w = (Inl e, w') \<and>
         retry ExceptionToCheck tries delay backoff f w = (Inl e, w')"
  using assms by (simp add: retry_def f_retry_loop_raise)

theorem retry_non_matching_propagates_witness:
  "retry isinstance_NeutronException 4 1 2
     (stub_op KeyError (Delete_port user_ctx (PyStr ''p1''))) \<lparr>ext = (), trace = []\<rparr> =
   (Inl KeyError, \<lparr>ext = (), trace = [Delete_port user_ctx (PyStr ''p1'')]\<rparr>)"
proof -
  have f: "stub_op KeyError (Delete_port user_ctx (PyStr ''p1'')) \<lparr>ext = (), trace = []\<rparr> =
           (Inl KeyError, \<lparr>ext = (), trace = [Delete_port user_ctx (PyStr ''p1'')]\<rparr>)"
    by (simp add: stub_op_def call_def)
  have n: "\<not> isinstance_NeutronException KeyError" by simp
  from retry_non_matching_propagates
    [where f = "stub_op KeyError (Delete_port user_ctx (PyStr ''p1''))"
       and ExceptionToCheck = isinstance_NeutronException and tries = 4 and delay = 1
       and backoff = 2, OF f n]
  show ?thesis by simp
qed

section \<open>Properties of deletion\<close>

lemma delete_resource_port_body_deleted:
  "delete_port env c p (ext w) = (Inr u, x) \<Longrightarrow>
   delete_resource_port_body env c p w =
     (Inr (), \<lparr>ext = x, trace = trace w @ [Delete_port c p, Log Info]\<rparr>)"
  by (simp add: delete_resource_port_body_def call_def LOG_def)

lemma delete_resource_port_body_not_found:
  "delete_port env c p (ext w) = (Inl e, x) \<Longrightarrow> isinstance_PortNotFound e \<Longrightarrow>
   delete_resource_port_body env c p w =
     (Inr (), \<lparr>ext = x, trace = trace w @ [Delete_port c p, Log Warning]\<rparr>)"
  by (simp add: delete_resource_port_body_def call_def LOG_def)

lemma delete_resource_port_body_raises:
  "delete_port env c p (ext w) = (Inl e, x) \<Longrightarrow> \<not> isinstance_PortNotFound e \<Longrightarrow>
   delete_resource_port_body env c p w =
     (Inl e, \<lparr>ext = x, trace = trace w @ [Delete_port c p]\<rparr>)"
  by (simp add: delete_resource_port_body_def call_def)

lemma delete_resource_port_body_error_class:
  assumes reg: "\<forall>c p x e x'. delete_port env c p x = (Inl e, x') \<longrightarrow> isinstance_NeutronException e"
    and "delete_resource_port_body env c p w = (Inl e, w')"
  shows "isinstance_NeutronException e"
proof (cases "delete_port env c p (ext w)")
  case (Pair r x)
  with assms(2) have "r = Inl e"
    by (cases r) (auto simp: delete_resource_port_body_def call_def split: if_splits)
  with Pair reg show ?thesis by blast
qed

text \<open>The decorator raises only what the decorated function raises, as long as
  \<open>time_sleep\<close> accepts the lengths asked of it.\<close>

lemma f_retry_loop_error_class:
  assumes cls: "\<forall>w e w'. f w = (Inl e, w') \<longrightarrow> P e"
  shows "n = nat (mtries - 1) \<Longrightarrow> \<forall>i<n. sleepable (mdelay * b ^ i) \<Longrightarrow>
         f_retry_loop c b f mtries mdelay w = (Inl e, w') \<Longrightarrow> P e"
proof (induction n arbitrary: mtries mdelay w)
  case 0
  then have "\<not> 1 < mtries" by simp
  with "0.prems"(3) have "f w = (Inl e, w')" by (simp add: f_retry_loop_last)
  with cls show ?case by blast
next
  case (Suc n)
  note run = Suc.prems(3)
  from Suc.prems(1) have gt: "1 < mtries" and n: "n = nat ((mtries - 1) - 1)"
    by simp_all
  obtain r w1 where fw: "f w = (r, w1)" by (cases "f w")
  show ?case
  proof (cases r)
    case (Inr v)
    with fw run show ?thesis by (simp add: f_retry_loop_return)
  next
    case (Inl e1)
    with fw have fw': "f w = (Inl e1, w1)" by simp
    show ?thesis
    proof (cases "c e1")
      case False
      with fw' run have "e1 = e" by (simp add: f_retry_loop_raise)
      with fw' cls show ?thesis by blast
    next
      case ce: True
      note s0 = sleepable_first [OF Suc.prems(2)] and rest = sleepable_rest [OF Suc.prems(2)]
      from run f_retry_loop_again [where c = c and f = f and w = w, OF gt fw' ce s0]
      have "f_retry_loop c b f (mtries - 1) (mdelay * b)
              (w1\<lparr>trace := trace w1 @ [Log Error, Sleep mdelay]\<rparr>) = (Inl e, w')"
        by simp
      from Suc.IH [OF n rest this] show ?thesis .
    qed
  qed
qed

lemma deletion_sleeps:
  "\<forall>i<nat (DELETION_ATTEMPTS - 1). sleepable (1 * 2 ^ i)"
proof (intro allI impI)
  fix i
  assume "i < nat (DELETION_ATTEMPTS - 1)"
  then have "i = 0 \<or> i = 1 \<or> i = 2"
    by (auto simp: DELETION_ATTEMPTS_def)
  then show "sleepable (1 * 2 ^ i)"
    by (auto simp: sleepable_def sleep_max_def)
qed

lemma delete_hosting_device_resources_None:
  "delete_hosting_device_resources env c t None w =
     (Inr (), w\<lparr>trace := trace w @ [Delete_hosting_device_resources c t None]\<rparr>)"
  by (simp add: delete_hosting_device_resources_def)

lemma delete_never_raises:
  assumes reg: "\<forall>c p x e x'. delete_port env c p x = (Inl e, x') \<longrightarrow> isinstance_NeutronException e"
    and wf: "mp = None \<or> (\<exists>d. mp = Some d \<and> dict_getitem d ''id'' = Inr pid)"
  shows "fst (delete_hosting_device_resources env c t mp w) = Inr ()"
proof (cases mp)
  case None
  then show ?thesis by (simp add: delete_hosting_device_resources_None)
next
  case (Some d)
  with wf have pid: "dict_getitem d ''id'' = Inr pid" by simp
  let ?w = "w\<lparr>trace := trace w @ [Delete_hosting_device_resources c t mp]\<rparr>"
  obtain r w' where run: "delete_resource_port env c pid ?w = (r, w')"
    by (cases "delete_resource_port env c pid ?w")
  show ?thesis
  proof (cases r)
    case (Inr u)
    with Some pid run show ?thesis
      by (simp add: delete_hosting_device_resources_def Let_def)
  next
    case (Inl e)
    have "\<forall>w e w'. delete_resource_port_body env c pid w = (Inl e, w') \<longrightarrow>
            isinstance_NeutronException e"
      using delete_resource_port_body_error_class [OF reg] by blast
    from f_retry_loop_error_class [OF this refl deletion_sleeps] run Inl
    have "isinstance_NeutronException e"
      unfolding delete_resource_port_def retry_def by blast
    with Some pid run Inl show ?thesis
      by (simp add: delete_hosting_device_resources_def Let_def)
  qed
qed

lemma delete_not_found:
  assumes pid: "dict_getitem d ''id'' = Inr pid"
    and nf: "delete_port env c pid (ext w) = (Inl PortNotFound, x)"
  shows "delete_hosting_device_resources env c t (Some d) w =
     (Inr (), \<lparr>ext = x, trace = trace w @
        [Delete_hosting_device_resources c t (Some d), Delete_port c pid, Log Warning]\<rparr>)"
proof -
  let ?w = "w\<lparr>trace := trace w @ [Delete_hosting_device_resources c t (Some d)]\<rparr>"
  from nf have "delete_port env c pid (ext ?w) = (Inl PortNotFound, x)" by simp
  from delete_resource_port_body_not_found [OF this]
  have "delete_resource_port env c pid ?w =
          (Inr (), \<lparr>ext = x, trace = trace ?w @ [Delete_port c pid, Log Warning]\<rparr>)"
    by (simp add: delete_resource_port_def retry_def f_retry_loop_return)
  with pid show ?thesis
    by (simp add: delete_hosting_device_resources_def Let_def)
qed

lemma backoff_events_3:
  "backoff_events ev 1 2 (nat (DELETION_ATTEMPTS - 1)) =
     [ev, Log Error, Sleep 1, ev, Log Error, Sleep 2, ev, Log Error, Sleep 4]"
proof -
  have "nat (DELETION_ATTEMPTS - 1) = Suc (Suc (Suc 0))"
    by (simp add: DELETION_ATTEMPTS_def)
  then show ?thesis by (simp add: backoff_events_Suc)
qed

lemma delete_retries_exhausted:
  assumes pid: "dict_getitem d ''id'' = Inr pid"
    and fails: "\<forall>x. \<exists>e x'. delete_port env c pid x = (Inl e, x') \<and>
                  isinstance_NeutronException e \<and> \<not> isinstance_PortNotFound e"
  shows "fst (delete_hosting_device_resources env c t (Some d) w) = Inr () \<and>
         trace (snd (delete_hosting_device_resources env c t (Some d) w)) = trace w @
           [Delete_hosting_device_resources c t (Some d),
            Delete_port c pid, Log Error, Sleep 1,
            Delete_port c pid, Log Error, Sleep 2,
            Delete_port c pid, Log Error, Sleep 4,
            Delete_port c pid, Log Error]"
proof -
  let ?w = "w\<lparr>trace := trace w @ [Delete_hosting_device_resources c t (Some d)]\<rparr>"
  let ?f = "delete_resource_port_body env c pid"
  let ?ev = "Delete_port c pid"
  have body: "\<forall>w. \<exists>e w'. ?f w = (Inl e, w') \<and> isinstance_NeutronException e \<and>
                trace w' = trace w @ [?ev]"
  proof
    fix w :: "'a world"
    from fails obtain e x' where
      "delete_port env c pid (ext w) = (Inl e, x')" "isinstance_NeutronException e"
      "\<not> isinstance_PortNotFound e"
      by blast
    with delete_resource_port_body_raises [of env c pid w e x']
    show "\<exists>e w'. ?f w = (Inl e, w') \<and> isinstance_NeutronException e \<and>
            trace w' = trace w @ [?ev]"
      by simp
  qed
  from f_retry_loop_exhausted [OF body refl deletion_sleeps, of ?w] obtain wl where
    wl: "delete_resource_port env c pid ?w = ?f wl"
        "trace wl = trace ?w @ backoff_events ?ev 1 2 (nat (DELETION_ATTEMPTS - 1))"
    by (auto simp: delete_resource_port_def retry_def)
  from body obtain e w' where
    last: "?f wl = (Inl e, w')" "isinstance_NeutronException e" "trace w' = trace wl @ [?ev]"
    by blast
  from pid wl(1) last(1) last(2)
  have "delete_hosting_device_resources env c t (Some d) w = (Inr (), LOG Error w')"
    by (simp add: delete_hosting_device_resources_def Let_def)
  with wl(2) last(3) show ?thesis
    by (simp add: backoff_events_3)
qed

text \<open>
  Claim C2. Let the management port passed to \<open>delete_hosting_device_resources\<close> be
  \<^verbatim>\<open>None\<close> or a port dictionary with an \<^verbatim>\<open>'id'\<close> entry \<open>pid\<close>.
  \<^item> If the registry's \<^verbatim>\<open>delete_port\<close> raises registry errors only (instances of
    \<^verbatim>\<open>NeutronException\<close>), the call returns normally, and so does a second call made
    right after it with the same port.
  \<^item> If the registry reports the port as not found, the call returns normally after one
    call of \<^verbatim>\<open>delete_port\<close> and a warning.
  \<^item> If \<^verbatim>\<open>delete_port\<close> raises a retryable error (an instance of
    \<^verbatim>\<open>NeutronException\<close> other than \<^verbatim>\<open>PortNotFound\<close>) at every attempt, the call
    returns normally; \<^verbatim>\<open>delete_port\<close> has been called exactly four times, with sleeps of
    1, 2 and 4 seconds between the calls, and the failure is only logged.
\<close>

theorem delete_hosting_device_resources_swallows:
  assumes wf: "mp = None \<or> (\<exists>d. mp = Some d \<and> dict_getitem d ''id'' = Inr pid)"
  shows
    "((\<forall>c p x e x'. delete_port env c p x = (Inl e, x') \<longrightarrow> isinstance_NeutronException e) \<longrightarrow>
        fst (delete_hosting_device_resources env c t mp w) = Inr () \<and>
        fst (delete_hosting_device_resources env c t mp
               (snd (delete_hosting_device_resources env c t mp w))) = Inr ()) \<and>
     (\<forall>x. mp \<noteq> None \<and> delete_port env c pid (ext w) = (Inl PortNotFound, x) \<longrightarrow>
        delete_hosting_device_resources env c t mp w =
          (Inr (), \<lparr>ext = x, trace = trace w @
             [Delete_hosting_device_resources c t mp, Delete_port c pid, Log Warning]\<rparr>)) \<and>
     (mp \<noteq> None \<and>
      (\<forall>x. \<exists>e x'. delete_port env c pid x = (Inl e, x') \<and>
         isinstance_NeutronException e \<and> \<not> isinstance_PortNotFound e) \<longrightarrow>
        fst (delete_hosting_device_resources env c t mp w) = Inr () \<and>
        trace (snd (delete_hosting_device_resources env c t mp w)) = trace w @
          [Delete_hosting_device_resources c t mp,
           Delete_port c pid, Log Error, Sleep 1,
           Delete_port c pid, Log Error, Sleep 2,
           Delete_port c pid, Log Error, Sleep 4,
           Delete_port c pid, Log Error])"
proof (intro conjI impI allI)
  assume reg: "\<forall>c p x e x'. delete_port env c p x = (Inl e, x') \<longrightarrow> isinstance_NeutronException e"
  show "fst (delete_hosting_device_resources env c t mp w) = Inr ()"
    by (rule delete_never_raises [OF reg wf])
  show "fst (delete_hosting_device_resources env c t mp
               (snd (delete_hosting_device_resources env c t mp w))) = Inr ()"
    by (rule delete_never_raises [OF reg wf])
next
  fix x
  assume a: "mp \<noteq> None \<and> delete_port env c pid (ext w) = (Inl PortNotFound, x)"
  with wf obtain d where d: "mp = Some d" "dict_getitem d ''id'' = Inr pid" by auto
  from a delete_not_found [OF d(2), of env c w x t] d(1)
  show "delete_hosting_device_resources env c t mp w =
          (Inr (), \<lparr>ext = x, trace = trace w @
             [Delete_hosting_device_resources c t mp, Delete_port c pid, Log Warning]\<rparr>)"
    by simp
next
  assume a: "mp \<noteq> None \<and>
      (\<forall>x. \<exists>e x'. delete_port env c pid x = (Inl e, x') \<and>
         isinstance_NeutronException e \<and> \<not> isinstance_PortNotFound e)"
  with wf obtain d where d: "mp = Some d" "dict_getitem d ''id'' = Inr pid" by auto
  from a have fails: "\<forall>x. \<exists>e x'. delete_port env c pid x = (Inl e, x') \<and>
         isinstance_NeutronException e \<and> \<not> isinstance_PortNotFound e"
    by simp
  from delete_retries_exhausted [OF d(2) fails, of t w] d(1)
  show "fst (delete_hosting_device_resources env c t mp w) = Inr ()"
    and "trace (snd (delete_hosting_device_resources env c t mp w)) = trace w @
          [Delete_hosting_device_resources c t mp,
           Delete_port c pid, Log Error, Sleep 1,
           Delete_port c pid, Log Error, Sleep 2,
           Delete_port c pid, Log Error, Sleep 4,
           Delete_port c pid, Log Error]"
    by simp_all
qed

theorem delete_hosting_device_resources_swallows_witness:
  "fst (delete_hosting_device_resources (stub_env (Inr port_p1) (Inr ()) (Inr ()) (Inr ()))
          user_ctx (PyStr ''t1'') (Some port_p1) \<lparr>ext = [row_p1], trace = []\<rparr>) = Inr () \<and>
   fst (delete_hosting_device_resources (stub_env (Inr port_p1) (Inr ()) (Inr ()) (Inr ()))
          user_ctx (PyStr ''t1'') (Some port_p1)
          (snd (delete_hosting_device_resources
                  (stub_env (Inr port_p1) (Inr ()) (Inr ()) (Inr ()))
                  user_ctx (PyStr ''t1'') (Some port_p1) \<lparr>ext = [row_p1], trace = []\<rparr>)))
     = Inr () \<and>
   delete_hosting_device_resources (stub_env (Inr port_p1) (Inr ()) (Inr ()) (Inr ()))
       user_ctx (PyStr ''t1'') (Some port_p1) \<lparr>ext = [], trace = []\<rparr> =
     (Inr (), \<lparr>ext = [], trace =
        [Delete_hosting_device_resources user_ctx (PyStr ''t1'') (Some port_p1),
         Delete_port user_ctx (PyStr ''p1''), Log Warning]\<rparr>) \<and>
   fst (delete_hosting_device_resources failing_env user_ctx (PyStr ''t1'') (Some port_p1)
          \<lparr>ext = [row_p1], trace = []\<rparr>) = Inr () \<and>
   trace (snd (delete_hosting_device_resources failing_env user_ctx (PyStr ''t1'')
                 (Some port_p1) \<lparr>ext = [row_p1], trace = []\<rparr>)) =
     [Delete_hosting_device_resources user_ctx (PyStr ''t1'') (Some port_p1),
      Delete_port user_ctx (PyStr ''p1''), Log Error, Sleep 1,
      Delete_port user_ctx (PyStr ''p1''), Log Error, Sleep 2,
      Delete_port user_ctx (PyStr ''p1''), Log Error, Sleep 4,
      Delete_port user_ctx (PyStr ''p1''), Log Error]"
proof -
  let ?stub = "stub_env (Inr port_p1) (Inr ()) (Inr ()) (Inr ())"
  have wf: "Some port_p1 = None \<or>
            (\<exists>d. Some port_p1 = Some d \<and> dict_getitem d ''id'' = Inr (PyStr ''p1''))"
    by (simp add: port_p1_def dict_getitem_def)
  note T = delete_hosting_device_resources_swallows [OF wf]
  have reg: "\<forall>c p x e x'. delete_port ?stub c p x = (Inl e, x') \<longrightarrow>
               isinstance_NeutronException e"
    by (auto simp: stub_env_def split: if_splits)
  have nf: "Some port_p1 \<noteq> None \<and>
            delete_port ?stub user_ctx (PyStr ''p1'') (ext \<lparr>ext = [], trace = []\<rparr>) =
              (Inl PortNotFound, [])"
    by (simp add: stub_env_def)
  have fails: "Some port_p1 \<noteq> None \<and>
     (\<forall>x. \<exists>e x'. delete_port failing_env user_ctx (PyStr ''p1'') x = (Inl e, x') \<and>
        isinstance_NeutronException e \<and> \<not> isinstance_PortNotFound e)"
    by (simp add: failing_env_def)
  from T [of ?stub user_ctx "PyStr ''t1''" "\<lparr>ext = [row_p1], trace = []\<rparr>"] reg
  have a: "fst (delete_hosting_device_resources ?stub user_ctx (PyStr ''t1'') (Some port_p1)
                  \<lparr>ext = [row_p1], trace = []\<rparr>) = Inr () \<and>
           fst (delete_hosting_device_resources ?stub user_ctx (PyStr ''t1'') (Some port_p1)
                  (snd (delete_hosting_device_resources ?stub user_ctx (PyStr ''t1'')
                          (Some port_p1) \<lparr>ext = [row_p1], trace = []\<rparr>))) = Inr ()"
    by blast
  from T [of ?stub user_ctx "PyStr ''t1''" "\<lparr>ext = [], trace = []\<rparr>"] nf
  have b: "delete_hosting_device_resources ?stub user_ctx (PyStr ''t1'') (Some port_p1)
             \<lparr>ext = [], trace = []\<rparr> =
           (Inr (), \<lparr>ext = [], trace = [] @
              [Delete_hosting_device_resources user_ctx (PyStr ''t1'') (Some port_p1),
               Delete_port user_ctx (PyStr ''p1''), Log Warning]\<rparr>)"
    by (simp del: append_Nil)
  from T [of failing_env user_ctx "PyStr ''t1''" "\<lparr>ext = [row_p1], trace = []\<rparr>"] fails
  have c: "fst (delete_hosting_device_resources failing_env user_ctx (PyStr ''t1'')
                  (Some port_p1) \<lparr>ext = [row_p1], trace = []\<rparr>) = Inr () \<and>
           trace (snd (delete_hosting_device_resources failing_env user_ctx (PyStr ''t1'')
                         (Some port_p1) \<lparr>ext = [row_p1], trace = []\<rparr>)) =
             [Delete_hosting_device_resources user_ctx (PyStr ''t1'') (Some port_p1),
              Delete_port user_ctx (PyStr ''p1''), Log Error, Sleep 1,
              Delete_port user_ctx (PyStr ''p1''), Log Error, Sleep 2,
              Delete_port user_ctx (PyStr ''p1''), Log Error, Sleep 4,
              Delete_port user_ctx (PyStr ''p1''), Log Error]"
    by simp
  from a b c show ?thesis by simp
qed

section \<open>Properties of creation\<close>

lemma guard_getitem:
  "truthy (dict_get mc k) \<Longrightarrow> mc \<noteq> [] \<and> dict_getitem mc k = Inr (dict_get mc k)"
  by (cases "map_of mc k") (auto simp: dict_get_def dict_getitem_def)

lemma create_guarded:
  assumes "mgmt_context = Some mc" "truthy (dict_get mc ''mgmt_nw_id'')" "truthy tenant_id"
  shows "create_hosting_device_resources env c cid tenant_id mgmt_context max_hosted w =
     (case call (Create_port c (p_spec tenant_id (dict_get mc ''mgmt_nw_id'') cid))
             (create_port env c (p_spec tenant_id (dict_get mc ''mgmt_nw_id'') cid)) w of
        (Inr port, w') \<Rightarrow> (Inr \<lparr>mgmt_port = Some port, ports = []\<rparr>, w')
      | (Inl e, w') \<Rightarrow>
          if isinstance_NeutronException e then
            (case delete_hosting_device_resources env c tenant_id None (LOG Error w') of
               (Inl e', w'') \<Rightarrow> (Inl e', w'')
             | (Inr u, w'') \<Rightarrow> (Inr \<lparr>mgmt_port = None, ports = []\<rparr>, w''))
          else (Inl e, w'))"
  using assms guard_getitem [of mc "''mgmt_nw_id''"]
  by (simp add: create_hosting_device_resources_def getitem_def Let_def)

lemma create_neutron_failure:
  assumes guard: "mgmt_context = Some mc" "truthy (dict_get mc ''mgmt_nw_id'')"
      "truthy tenant_id"
    and fails: "create_port env c (p_spec tenant_id (dict_get mc ''mgmt_nw_id'') cid) (ext w)
                  = (Inl e, x)"
    and neutron: "isinstance_NeutronException e"
  shows "create_hosting_device_resources env c cid tenant_id mgmt_context max_hosted w =
           (Inr \<lparr>mgmt_port = None, ports = []\<rparr>,
            \<lparr>ext = x, trace = trace w @
               [Create_port c (p_spec tenant_id (dict_get mc ''mgmt_nw_id'') cid),
                Log Error,
                Delete_hosting_device_resources c tenant_id None]\<rparr>)"
  using fails neutron
  by (simp add: create_guarded [OF guard] call_def delete_hosting_device_resources_None
      LOG_def)

text \<open>
  Claim C9. When the management context is \<^verbatim>\<open>None\<close>, or gives no management network
  identifier (the entry is missing, \<^verbatim>\<open>None\<close> or empty), or the tenant identifier is empty
  (\<^verbatim>\<open>None\<close> or the empty string), \<open>create_hosting_device_resources\<close> returns the bundle
  with no management port and no ports and leaves the world as it was: no event is
  recorded, so the registry's \<^verbatim>\<open>create_port\<close> has not been called.
\<close>

theorem create_without_management_network:
  assumes "(case mgmt_context of None \<Rightarrow> True
            | Some mc \<Rightarrow> \<not> truthy (dict_get mc ''mgmt_nw_id'')) \<or> \<not> truthy tenant_id"
  shows "create_hosting_device_resources env c cid tenant_id mgmt_context max_hosted w =
           (Inr \<lparr>mgmt_port = None, ports = []\<rparr>, w)"
  using assms
  by (auto simp: create_hosting_device_resources_def split: option.splits)

theorem create_without_management_network_witness:
  "create_hosting_device_resources failing_env user_ctx (PyStr ''comp1'') (PyStr ''t1'') None
     (PyStr ''1'') \<lparr>ext = [], trace = []\<rparr> =
     (Inr \<lparr>mgmt_port = None, ports = []\<rparr>, \<lparr>ext = [], trace = []\<rparr>) \<and>
   create_hosting_device_resources failing_env user_ctx (PyStr ''comp1'') (PyStr '''')
     (Some [(''mgmt_nw_id'', PyStr ''mgmt'')]) (PyStr ''1'') \<lparr>ext = [], trace = []\<rparr> =
     (Inr \<lparr>mgmt_port = None, ports = []\<rparr>, \<lparr>ext = [], trace = []\<rparr>) \<and>
   create_hosting_device_resources failing_env user_ctx (PyStr ''comp1'') (PyStr ''t1'')
     (Some [(''other'', PyStr ''x'')]) (PyStr ''1'') \<lparr>ext = [], trace = []\<rparr> =
     (Inr \<lparr>mgmt_port = None, ports = []\<rparr>, \<lparr>ext = [], trace = []\<rparr>)"
proof -
  have h1: "(case None :: pydict option of None \<Rightarrow> True
             | Some mc \<Rightarrow> \<not> truthy (dict_get mc ''mgmt_nw_id'')) \<or> \<not> truthy (PyStr ''t1'')"
    by simp
  have h2: "(case Some [(''mgmt_nw_id'', PyStr ''mgmt'')] of None \<Rightarrow> True
             | Some mc \<Rightarrow> \<not> truthy (dict_get mc ''mgmt_nw_id'')) \<or> \<not> truthy (PyStr '''')"
    by simp
  have h3: "(case Some [(''other'', PyStr ''x'')] of None \<Rightarrow> True
             | Some mc \<Rightarrow> \<not> truthy (dict_get mc ''mgmt_nw_id'')) \<or> \<not> truthy (PyStr ''t1'')"
    by (simp add: dict_get_def)
  show ?thesis
    using create_without_management_network [OF h1]
      create_without_management_network [OF h2]
      create_without_management_network [OF h3]
    by blast
qed

text \<open>
  Claim C4. When a management network and a tenant are given and the registry's
  \<^verbatim>\<open>create_port\<close> fails (with a registry error, an instance of \<^verbatim>\<open>NeutronException\<close>),
  the events of the call are: the call of \<^verbatim>\<open>create_port\<close>, an error message, and one
  entry into \<open>delete_hosting_device_resources\<close>, whose port argument is the port
  reference held at that time, \<^verbatim>\<open>None\<close>. The call returns the bundle whose management
  port is \<^verbatim>\<open>None\<close>.
\<close>

theorem create_failure_rollback:
  assumes guard: "mgmt_context = Some mc" "truthy (dict_get mc ''mgmt_nw_id'')"
      "truthy tenant_id"
    and fails: "create_port env c (p_spec tenant_id (dict_get mc ''mgmt_nw_id'') cid) (ext w)
                  = (Inl e, x)"
    and neutron: "isinstance_NeutronException e"
  shows "create_hosting_device_resources env c cid tenant_id mgmt_context max_hosted w =
           (Inr \<lparr>mgmt_port = None, ports = []\<rparr>,
            \<lparr>ext = x, trace = trace w @
               [Create_port c (p_spec tenant_id (dict_get mc ''mgmt_nw_id'') cid),
                Log Error,
                Delete_hosting_device_resources c tenant_id None]\<rparr>)"
  by (rule create_neutron_failure [OF guard fails neutron])

theorem create_failure_rollback_witness:
  "create_hosting_device_resources failing_env user_ctx (PyStr ''comp1'') (PyStr ''t1'')
     (Some [(''mgmt_nw_id'', PyStr ''mgmt'')]) (PyStr ''1'') \<lparr>ext = [row_p1], trace = []\<rparr> =
   (Inr \<lparr>mgmt_port = None, ports = []\<rparr>,
    \<lparr>ext = [row_p1], trace =
       [Create_port user_ctx (p_spec (PyStr ''t1'') (PyStr ''mgmt'') (PyStr ''comp1'')),
        Log Error,
        Delete_hosting_device_resources user_ctx (PyStr ''t1'') None]\<rparr>)"
proof -
  have nw: "dict_get [(''mgmt_nw_id'', PyStr ''mgmt'')] ''mgmt_nw_id'' = PyStr ''mgmt''"
    by (simp add: dict_get_def)
  have g: "truthy (dict_get [(''mgmt_nw_id'', PyStr ''mgmt'')] ''mgmt_nw_id'')"
      "truthy (PyStr ''t1'')"
    by (simp_all add: nw)
  have f: "create_port failing_env user_ctx
             (p_spec (PyStr ''t1'') (dict_get [(''mgmt_nw_id'', PyStr ''mgmt'')] ''mgmt_nw_id'')
                (PyStr ''comp1''))
             (ext \<lparr>ext = [row_p1], trace = []\<rparr>) = (Inl NeutronException, [row_p1])"
    by (simp add: failing_env_def stub_env_def)
  have n: "isinstance_NeutronException NeutronException" by simp
  from create_failure_rollback [OF refl g f n, of "PyStr ''1''"] show ?thesis
    by (simp add: nw)
qed

text \<open>
  Claim C10. In every run of \<open>create_hosting_device_resources\<close> in which the registry's
  \<^verbatim>\<open>create_port\<close> is called and fails, whatever the exception:
  \<^item> the collaborators' state at the end is the one \<^verbatim>\<open>create_port\<close> left;
  \<^item> among the events after the call of \<^verbatim>\<open>create_port\<close> there is no call of the
    registry's \<^verbatim>\<open>delete_port\<close>;
  \<^item> every entry into \<open>delete_hosting_device_resources\<close> among them has the port
    argument \<^verbatim>\<open>None\<close>;
  and \<open>delete_hosting_device_resources\<close> with the port \<^verbatim>\<open>None\<close> does nothing but
  return: it leaves the collaborators' state as it is and calls nothing.
\<close>

theorem create_rollback_is_noop:
  assumes guard: "mgmt_context = Some mc" "truthy (dict_get mc ''mgmt_nw_id'')"
      "truthy tenant_id"
    and fails: "create_port env c (p_spec tenant_id (dict_get mc ''mgmt_nw_id'') cid) (ext w)
                  = (Inl e, x)"
  shows "\<exists>evs.
           snd (create_hosting_device_resources env c cid tenant_id mgmt_context max_hosted w)
             = \<lparr>ext = x, trace = trace w @
                  Create_port c (p_spec tenant_id (dict_get mc ''mgmt_nw_id'') cid) # evs\<rparr> \<and>
           (\<forall>c' p. Delete_port c' p \<notin> set evs) \<and>
           (\<forall>c' t' mp. Delete_hosting_device_resources c' t' mp \<in> set evs \<longrightarrow> mp = None) \<and>
           delete_hosting_device_resources env c tenant_id None w1 =
             (Inr (), \<lparr>ext = ext w1, trace = trace w1 @
                [Delete_hosting_device_resources c tenant_id None]\<rparr>)"
proof (cases "isinstance_NeutronException e")
  case True
  from create_neutron_failure [OF guard fails True, of max_hosted]
  show ?thesis
    by (intro exI [of _ "[Log Error, Delete_hosting_device_resources c tenant_id None]"])
      (simp add: delete_hosting_device_resources_None)
next
  case False
  with fails show ?thesis
    by (intro exI [of _ "[]"])
      (simp add: create_guarded [OF guard] call_def delete_hosting_device_resources_None)
qed

theorem create_rollback_is_noop_witness:
  "ext (snd (create_hosting_device_resources failing_env user_ctx (PyStr ''comp1'')
               (PyStr ''t1'') (Some [(''mgmt_nw_id'', PyStr ''mgmt'')]) (PyStr ''1'')
               \<lparr>ext = [row_p1], trace = []\<rparr>)) = [row_p1] \<and>
   delete_hosting_device_resources failing_env user_ctx (PyStr ''t1'') None
     \<lparr>ext = [row_p1], trace = []\<rparr> =
     (Inr (), \<lparr>ext = [row_p1], trace =
        [Delete_hosting_device_resources user_ctx (PyStr ''t1'') None]\<rparr>)"
proof -
  have nw: "dict_get [(''mgmt_nw_id'', PyStr ''mgmt'')] ''mgmt_nw_id'' = PyStr ''mgmt''"
    by (simp add: dict_get_def)
  have g: "truthy (dict_get [(''mgmt_nw_id'', PyStr ''mgmt'')] ''mgmt_nw_id'')"
      "truthy (PyStr ''t1'')"
    by (simp_all add: nw)
  have f: "create_port failing_env user_ctx
             (p_spec (PyStr ''t1'') (dict_get [(''mgmt_nw_id'', PyStr ''mgmt'')] ''mgmt_nw_id'')
                (PyStr ''comp1''))
             (ext \<lparr>ext = [row_p1], trace = []\<rparr>) = (Inl NeutronException, [row_p1])"
    by (simp add: failing_env_def stub_env_def)
  from create_rollback_is_noop
    [OF refl g f, of "PyStr ''1''" "\<lparr>ext = [row_p1], trace = []\<rparr>"]
  show ?thesis by auto
qed

section \<open>Properties of the search for the management port\<close>

lemma for_port_in_found:
  "fst (for_port_in nw rows w) = find (\<lambda>port. PyStr (network_id port) = nw) rows"
  by (induction rows arbitrary: w) simp_all

lemma for_port_in_world:
  "snd (for_port_in nw rows w) =
     \<lparr>ext = ext w,
      trace = trace w @
        map (\<lambda>port. Log Debug) (takeWhile (\<lambda>port. PyStr (network_id port) \<noteq> nw) rows)\<rparr>"
  by (induction rows arbitrary: w) simp_all

lemma find_filter: "find P (filter Q xs) = find (\<lambda>x. Q x \<and> P x) xs"
  by (induction xs) simp_all

lemma find_first:
  "(case find P xs of
      None \<Rightarrow> \<forall>x \<in> set xs. \<not> P x
    | Some x \<Rightarrow> \<exists>before after. xs = before @ x # after \<and> P x \<and> (\<forall>y \<in> set before. \<not> P y))"
proof (cases "find P xs")
  case None
  then have "\<forall>x \<in> set xs. \<not> P x" by (simp add: find_None_iff)
  with None show ?thesis by simp
next
  case (Some x)
  then obtain i where i: "i < length xs" "P (xs ! i)" "x = xs ! i" "\<forall>j<i. \<not> P (xs ! j)"
    unfolding find_Some_iff by blast
  have "xs = take i xs @ x # drop (Suc i) xs"
    using i by (simp add: id_take_nth_drop)
  moreover have "\<forall>y \<in> set (take i xs). \<not> P y"
    using i by (auto simp: in_set_conv_nth)
  ultimately have "\<exists>before after. xs = before @ x # after \<and> P x \<and> (\<forall>y \<in> set before. \<not> P y)"
    using i by blast
  with Some show ?thesis by simp
qed

text \<open>
  Claim C5. For every port table the registry enumerates, the management port in the
  result of \<open>get_hosting_device_resources\<close> is the first row, in enumeration order, whose
  device identifier equals the hosting device identifier or whose device owner equals
  the complementary identifier, and whose network identifier equals the management
  network identifier: the rows before it do not qualify, and when no row qualifies the
  management port is \<^verbatim>\<open>None\<close>. The rows that pass the filter on device identifier or
  owner and come before the selected one are on another network; each is skipped with a
  debug message. The collaborators' state is not changed.
\<close>

theorem get_selects_first_management_port:
  "mgmt_port (fst (get_hosting_device_resources env c hd_id cid tenant_id nw w)) =
     find (\<lambda>port. (PyStr (device_id port) = hd_id \<or> PyStr (device_owner port) = cid) \<and>
                   PyStr (network_id port) = nw)
       (port_rows env (ext w)) \<and>
   (case mgmt_port (fst (get_hosting_device_resources env c hd_id cid tenant_id nw w)) of
      None \<Rightarrow>
        \<forall>port \<in> set (port_rows env (ext w)).
          \<not> ((PyStr (device_id port) = hd_id \<or> PyStr (device_owner port) = cid) \<and>
             PyStr (network_id port) = nw)
    | Some found \<Rightarrow>
        \<exists>before after.
          port_rows env (ext w) = before @ found # after \<and>
          (PyStr (device_id found) = hd_id \<or> PyStr (device_owner found) = cid) \<and>
          PyStr (network_id found) = nw \<and>
          (\<forall>port \<in> set before.
             \<not> ((PyStr (device_id port) = hd_id \<or> PyStr (device_owner port) = cid) \<and>
                PyStr (network_id port) = nw))) \<and>
   snd (get_hosting_device_resources env c hd_id cid tenant_id nw w) =
     \<lparr>ext = ext w,
      trace = trace w @
        map (\<lambda>port. Log Debug)
          (takeWhile (\<lambda>port. PyStr (network_id port) \<noteq> nw)
             (filter (\<lambda>port. PyStr (device_id port) = hd_id \<or> PyStr (device_owner port) = cid)
                (port_rows env (ext w))))\<rparr>"
proof -
  let ?Q = "\<lambda>port. PyStr (device_id port) = hd_id \<or> PyStr (device_owner port) = cid"
  let ?P = "\<lambda>port. PyStr (network_id port) = nw"
  let ?rows = "port_rows env (ext w)"
  let ?run = "for_port_in nw (filter ?Q ?rows) w"
  have get: "get_hosting_device_resources env c hd_id cid tenant_id nw w =
               (\<lparr>mgmt_port = fst ?run\<rparr>, snd ?run)"
    by (simp add: get_hosting_device_resources_def Let_def split: prod.split)
  have found: "mgmt_port (fst (get_hosting_device_resources env c hd_id cid tenant_id nw w)) =
                 find (\<lambda>port. ?Q port \<and> ?P port) ?rows"
    by (simp add: get for_port_in_found find_filter)
  have world: "snd (get_hosting_device_resources env c hd_id cid tenant_id nw w) =
     \<lparr>ext = ext w,
      trace = trace w @
        map (\<lambda>port. Log Debug) (takeWhile (\<lambda>port. PyStr (network_id port) \<noteq> nw)
          (filter ?Q ?rows))\<rparr>"
    by (simp add: get for_port_in_world)
  have first: "(case find (\<lambda>port. ?Q port \<and> ?P port) ?rows of
      None \<Rightarrow> \<forall>port \<in> set ?rows. \<not> (?Q port \<and> ?P port)
    | Some found \<Rightarrow>
        \<exists>before after. ?rows = before @ found # after \<and> ?Q found \<and> ?P found \<and>
          (\<forall>port \<in> set before. \<not> (?Q port \<and> ?P port)))"
    using find_first [where P = "\<lambda>port. ?Q port \<and> ?P port" and xs = ?rows]
    by (cases "find (\<lambda>port. ?Q port \<and> ?P port) ?rows") simp_all
  show ?thesis
    unfolding found using first world by simp
qed


theorem get_selects_first_management_port_witness:
  "get_hosting_device_resources (stub_env (Inr port_p1) (Inr ()) (Inr ()) (Inr ())) user_ctx
     (PyStr ''hd1'') (PyStr ''comp1'') (PyStr ''t1'') (PyStr ''mgmt'')
     \<lparr>ext = [row_p3, row_p1, row_p2], trace = []\<rparr> =
     (\<lparr>mgmt_port = Some row_p1\<rparr>, \<lparr>ext = [row_p3, row_p1, row_p2], trace = [Log Debug]\<rparr>) \<and>
   get_hosting_device_resources (stub_env (Inr port_p1) (Inr ()) (Inr ()) (Inr ())) user_ctx
     (PyStr ''hd1'') (PyStr ''comp1'') (PyStr ''t1'') (PyStr ''mgmt'')
     \<lparr>ext = [row_p2, row_p1], trace = []\<rparr> =
     (\<lparr>mgmt_port = Some row_p2\<rparr>, \<lparr>ext = [row_p2, row_p1], trace = []\<rparr>) \<and>
   get_hosting_device_resources (stub_env (Inr port_p1) (Inr ()) (Inr ()) (Inr ())) user_ctx
     (PyStr ''hd1'') (PyStr ''comp1'') (PyStr ''t1'') (PyStr ''mgmt'')
     \<lparr>ext = [row_p3], trace = []\<rparr> =
     (\<lparr>mgmt_port = None\<rparr>, \<lparr>ext = [row_p3], trace = [Log Debug]\<rparr>)"
proof -
  let ?env = "stub_env (Inr port_p1) (Inr ()) (Inr ()) (Inr ())"
  note T = get_selects_first_management_port
    [of ?env user_ctx "PyStr ''hd1''" "PyStr ''comp1''" "PyStr ''t1''" "PyStr ''mgmt''"]
  note found = T [THEN conjunct1]
  note world = T [THEN conjunct2, THEN conjunct2]
  have rows: "port_rows ?env = (\<lambda>x. x)"
    by (simp add: stub_env_def)
  have eqI: "\<And>r mp x. mgmt_port (fst r) = mp \<Longrightarrow> snd r = x \<Longrightarrow>
               r = (\<lparr>mgmt_port = mp\<rparr>, x :: port_row list world)"
    by (metis (full_types) old.unit.exhaust prod.collapse resources.surjective)
  have a: "get_hosting_device_resources ?env user_ctx (PyStr ''hd1'') (PyStr ''comp1'')
             (PyStr ''t1'') (PyStr ''mgmt'') \<lparr>ext = [row_p3, row_p1, row_p2], trace = []\<rparr> =
           (\<lparr>mgmt_port = Some row_p1\<rparr>,
            \<lparr>ext = [row_p3, row_p1, row_p2], trace = [Log Debug]\<rparr>)"
    by (rule eqI) (simp_all add: found world rows row_p1_def row_p2_def row_p3_def)
  have b: "get_hosting_device_resources ?env user_ctx (PyStr ''hd1'') (PyStr ''comp1'')
             (PyStr ''t1'') (PyStr ''mgmt'') \<lparr>ext = [row_p2, row_p1], trace = []\<rparr> =
           (\<lparr>mgmt_port = Some row_p2\<rparr>, \<lparr>ext = [row_p2, row_p1], trace = []\<rparr>)"
    by (rule eqI) (simp_all add: found world rows row_p1_def row_p2_def row_p3_def)
  have c: "get_hosting_device_resources ?env user_ctx (PyStr ''hd1'') (PyStr ''comp1'')
             (PyStr ''t1'') (PyStr ''mgmt'') \<lparr>ext = [row_p3], trace = []\<rparr> =
           (\<lparr>mgmt_port = None\<rparr>, \<lparr>ext = [row_p3], trace = [Log Debug]\<rparr>)"
    by (rule eqI) (simp_all add: found world rows row_p1_def row_p2_def row_p3_def)
  from a b c show ?thesis by simp
qed

section \<open>Properties of attaching a logical port\<close>

lemma setup_l3_fails:
  "l3_tenant_id env (ext w) = (Inl e, x1) \<Longrightarrow>
   setup_logical_port_connectivity env c port_db hd_id w =
     (Inl e, \<lparr>ext = x1, trace = trace w @ [L3_tenant_id]\<rparr>)"
  by (simp add: setup_logical_port_connectivity_def call_def)

lemma setup_no_id:
  "l3_tenant_id env (ext w) = (Inr t, x1) \<Longrightarrow> getitem port_db ''id'' = Inl e \<Longrightarrow>
   setup_logical_port_connectivity env c port_db hd_id w =
     (Inl e, \<lparr>ext = x1, trace = trace w @ [L3_tenant_id]\<rparr>)"
  by (simp add: setup_logical_port_connectivity_def call_def)

lemma setup_update_fails:
  "l3_tenant_id env (ext w) = (Inr t, x1) \<Longrightarrow> getitem port_db ''id'' = Inr pid \<Longrightarrow>
   update_port env (elevated c) pid (ownership_reset t) x1 = (Inl e, x2) \<Longrightarrow>
   setup_logical_port_connectivity env c port_db hd_id w =
     (Inl e, \<lparr>ext = x2, trace = trace w @
        [L3_tenant_id, Update_port (elevated c) pid (ownership_reset t)]\<rparr>)"
  by (simp add: setup_logical_port_connectivity_def call_def)

lemma setup_attach_fails:
  "l3_tenant_id env (ext w) = (Inr t, x1) \<Longrightarrow> getitem port_db ''id'' = Inr pid \<Longrightarrow>
   update_port env (elevated c) pid (ownership_reset t) x1 = (Inr u, x2) \<Longrightarrow>
   interface_attach env hd_id pid x2 = (Inl e, x3) \<Longrightarrow>
   setup_logical_port_connectivity env c port_db hd_id w =
     (Inr (), \<lparr>ext = x3, trace = trace w @
        [L3_tenant_id, Update_port (elevated c) pid (ownership_reset t),
         Interface_attach hd_id pid, Log Error]\<rparr>)"
  by (simp add: setup_logical_port_connectivity_def call_def LOG_def)

lemma setup_attach_succeeds:
  "l3_tenant_id env (ext w) = (Inr t, x1) \<Longrightarrow> getitem port_db ''id'' = Inr pid \<Longrightarrow>
   update_port env (elevated c) pid (ownership_reset t) x1 = (Inr u, x2) \<Longrightarrow>
   interface_attach env hd_id pid x2 = (Inr u', x3) \<Longrightarrow>
   setup_logical_port_connectivity env c port_db hd_id w =
     (Inr (), \<lparr>ext = x3, trace = trace w @
        [L3_tenant_id, Update_port (elevated c) pid (ownership_reset t),
         Interface_attach hd_id pid, Log Debug]\<rparr>)"
  by (simp add: setup_logical_port_connectivity_def call_def LOG_def)

text \<open>
  Claim C6. The events of a call of \<open>setup_logical_port_connectivity\<close> are, in this
  order: the query for the administrative tenant; then, when that query returned a
  tenant and the port has an identifier, one call of the registry's \<^verbatim>\<open>update_port\<close>
  with the elevated variant of the supplied context, the port's identifier and the
  dictionary that sets \<^verbatim>\<open>device_owner\<close> and \<^verbatim>\<open>device_id\<close> to the empty string and
  \<^verbatim>\<open>tenant_id\<close> to the administrative tenant; then, when the update succeeded, one call
  of \<^verbatim>\<open>interface_attach\<close> with the hosting device identifier supplied to the call and the
  port's identifier, followed by one message. So the attach is never invoked unless this
  update came immediately before it.
\<close>

theorem setup_resets_ownership_before_attach:
  "trace (snd (setup_logical_port_connectivity env c port_db hd_id w)) = trace w @
     (case l3_tenant_id env (ext w) of
        (Inl e, x1) \<Rightarrow> [L3_tenant_id]
      | (Inr t, x1) \<Rightarrow>
          (case getitem port_db ''id'' of
             Inl e \<Rightarrow> [L3_tenant_id]
           | Inr pid \<Rightarrow>
               [L3_tenant_id,
                Update_port (c\<lparr>ctx_is_admin := True\<rparr>) pid
                  [(''port'', PyDict [(''device_owner'', PyStr ''''),
                                       (''device_id'', PyStr ''''),
                                       (''tenant_id'', t)])]] @
               (case update_port env (elevated c) pid (ownership_reset t) x1 of
                  (Inl e, x2) \<Rightarrow> []
                | (Inr u, x2) \<Rightarrow>
                    [Interface_attach hd_id pid,
                     Log (case fst (interface_attach env hd_id pid x2) of
                            Inl e \<Rightarrow> Error
                          | Inr u' \<Rightarrow> Debug)])))"
proof (cases "l3_tenant_id env (ext w)")
  case l3: (Pair r1 x1)
  show ?thesis
  proof (cases r1)
    case (Inl e)
    with l3 show ?thesis by (simp add: setup_l3_fails)
  next
    case t: (Inr t)
    show ?thesis
    proof (cases "getitem port_db ''id''")
      case (Inl e)
      with l3 t show ?thesis by (simp add: setup_no_id)
    next
      case pid: (Inr pid)
      have reset: "ownership_reset t =
          [(''port'', PyDict [(''device_owner'', PyStr ''''), (''device_id'', PyStr ''''),
                               (''tenant_id'', t)])]"
        by (simp add: ownership_reset_def)
      have elev: "elevated c = c\<lparr>ctx_is_admin := True\<rparr>"
        by (simp add: elevated_def)
      show ?thesis
      proof (cases "update_port env (elevated c) pid (ownership_reset t) x1")
        case upd: (Pair r2 x2)
        show ?thesis
        proof (cases r2)
          case (Inl e)
          with l3 t pid upd have
            "setup_logical_port_connectivity env c port_db hd_id w =
               (Inl e, \<lparr>ext = x2, trace = trace w @
                  [L3_tenant_id, Update_port (elevated c) pid (ownership_reset t)]\<rparr>)"
            by (simp add: setup_update_fails)
          with l3 t pid upd Inl show ?thesis by (simp add: reset [symmetric] elev [symmetric])
        next
          case u: (Inr u)
          show ?thesis
          proof (cases "interface_attach env hd_id pid x2")
            case att: (Pair r3 x3)
            show ?thesis
            proof (cases r3)
              case (Inl e)
              with l3 t pid upd u att have
                "setup_logical_port_connectivity env c port_db hd_id w =
                   (Inr (), \<lparr>ext = x3, trace = trace w @
                      [L3_tenant_id, Update_port (elevated c) pid (ownership_reset t),
                       Interface_attach hd_id pid, Log Error]\<rparr>)"
                by (simp add: setup_attach_fails)
              with l3 t pid upd u att Inl show ?thesis
                by (simp add: reset [symmetric] elev [symmetric])
            next
              case (Inr u')
              with l3 t pid upd u att have
                "setup_logical_port_connectivity env c port_db hd_id w =
                   (Inr (), \<lparr>ext = x3, trace = trace w @
                      [L3_tenant_id, Update_port (elevated c) pid (ownership_reset t),
                       Interface_attach hd_id pid, Log Debug]\<rparr>)"
                by (simp add: setup_attach_succeeds)
              with l3 t pid upd u att Inr show ?thesis
                by (simp add: reset [symmetric] elev [symmetric])
            qed
          qed
        qed
      qed
    qed
  qed
qed

theorem setup_resets_ownership_before_attach_witness:
  "trace (snd (setup_logical_port_connectivity
       (stub_env (Inr port_p1) (Inr ()) (Inr ()) (Inr ())) user_ctx (Some port_p1)
       (PyStr ''hd1'') \<lparr>ext = [row_p1], trace = []\<rparr>)) =
     [L3_tenant_id,
      Update_port \<lparr>ctx_tenant = PyStr ''t1'', ctx_is_admin = True\<rparr> (PyStr ''p1'')
        [(''port'', PyDict [(''device_owner'', PyStr ''''), (''device_id'', PyStr ''''),
                             (''tenant_id'', PyStr ''l3admin'')])],
      Interface_attach (PyStr ''hd1'') (PyStr ''p1''),
      Log Debug]"
  using setup_resets_ownership_before_attach
    [of "stub_env (Inr port_p1) (Inr ()) (Inr ()) (Inr ())" user_ctx "Some port_p1"
        "PyStr ''hd1''" "\<lparr>ext = [row_p1], trace = []\<rparr>"]
  by (simp add: stub_env_def user_ctx_def port_p1_def getitem_def dict_getitem_def)

text \<open>
  Claim C1, amended. Consider a call of \<open>setup_logical_port_connectivity\<close> in which the
  administrative tenant is obtained and the port has an identifier.
  \<^item> An error raised by the ownership-reset port update is not caught: the call raises
    that error to its caller, no message is logged and the attach is not invoked.
  \<^item> Once the update has succeeded the call returns normally, whatever the attach does;
    an error raised by the attach is logged as an error and not raised again.
\<close>

theorem setup_swallows_attach_errors_only:
  assumes l3: "l3_tenant_id env (ext w) = (Inr t, x1)"
    and pid: "getitem port_db ''id'' = Inr pid"
  shows "(\<forall>e x2. update_port env (elevated c) pid (ownership_reset t) x1 = (Inl e, x2) \<longrightarrow>
            setup_logical_port_connectivity env c port_db hd_id w =
              (Inl e, \<lparr>ext = x2, trace = trace w @
                 [L3_tenant_id, Update_port (elevated c) pid (ownership_reset t)]\<rparr>)) \<and>
         (\<forall>u x2. update_port env (elevated c) pid (ownership_reset t) x1 = (Inr u, x2) \<longrightarrow>
            fst (setup_logical_port_connectivity env c port_db hd_id w) = Inr () \<and>
            (\<forall>e x3. interface_attach env hd_id pid x2 = (Inl e, x3) \<longrightarrow>
               snd (setup_logical_port_connectivity env c port_db hd_id w) =
                 \<lparr>ext = x3, trace = trace w @
                    [L3_tenant_id, Update_port (elevated c) pid (ownership_reset t),
                     Interface_attach hd_id pid, Log Error]\<rparr>))"
proof (intro conjI allI impI)
  fix e x2
  assume "update_port env (elevated c) pid (ownership_reset t) x1 = (Inl e, x2)"
  with l3 pid show "setup_logical_port_connectivity env c port_db hd_id w =
      (Inl e, \<lparr>ext = x2, trace = trace w @
         [L3_tenant_id, Update_port (elevated c) pid (ownership_reset t)]\<rparr>)"
    by (rule setup_update_fails)
next
  fix u x2
  assume upd: "update_port env (elevated c) pid (ownership_reset t) x1 = (Inr u, x2)"
  obtain r3 x3 where att: "interface_attach env hd_id pid x2 = (r3, x3)"
    by (cases "interface_attach env hd_id pid x2")
  show "fst (setup_logical_port_connectivity env c port_db hd_id w) = Inr ()"
  proof (cases r3)
    case (Inl e)
    with att setup_attach_fails [OF l3 pid upd] show ?thesis by simp
  next
    case (Inr u')
    with att setup_attach_succeeds [OF l3 pid upd] show ?thesis by simp
  qed
next
  fix u x2 e x3
  assume upd: "update_port env (elevated c) pid (ownership_reset t) x1 = (Inr u, x2)"
    and att: "interface_attach env hd_id pid x2 = (Inl e, x3)"
  from setup_attach_fails [OF l3 pid upd att]
  show "snd (setup_logical_port_connectivity env c port_db hd_id w) =
      \<lparr>ext = x3, trace = trace w @
         [L3_tenant_id, Update_port (elevated c) pid (ownership_reset t),
          Interface_attach hd_id pid, Log Error]\<rparr>"
    by simp
qed

theorem setup_swallows_attach_errors_only_witness:
  "setup_logical_port_connectivity
     (stub_env (Inr port_p1) (Inl NeutronException) (Inr ()) (Inr ())) user_ctx (Some port_p1)
     (PyStr ''hd1'') \<lparr>ext = [row_p1], trace = []\<rparr> =
     (Inl NeutronException,
      \<lparr>ext = [row_p1], trace =
         [L3_tenant_id,
          Update_port (elevated user_ctx) (PyStr ''p1'')
            (ownership_reset (PyStr ''l3admin''))]\<rparr>) \<and>
   fst (setup_logical_port_connectivity
     (stub_env (Inr port_p1) (Inr ()) (Inl OtherException) (Inr ())) user_ctx (Some port_p1)
     (PyStr ''hd1'') \<lparr>ext = [row_p1], trace = []\<rparr>) = Inr () \<and>
   snd (setup_logical_port_connectivity
     (stub_env (Inr port_p1) (Inr ()) (Inl OtherException) (Inr ())) user_ctx (Some port_p1)
     (PyStr ''hd1'') \<lparr>ext = [row_p1], trace = []\<rparr>) =
     \<lparr>ext = [row_p1], trace =
        [L3_tenant_id,
         Update_port (elevated user_ctx) (PyStr ''p1'') (ownership_reset (PyStr ''l3admin'')),
         Interface_attach (PyStr ''hd1'') (PyStr ''p1''), Log Error]\<rparr>"
proof -
  let ?w = "\<lparr>ext = [row_p1], trace = []\<rparr> :: port_row list world"
  let ?e1 = "stub_env (Inr port_p1) (Inl NeutronException) (Inr ()) (Inr ())"
  let ?e2 = "stub_env (Inr port_p1) (Inr ()) (Inl OtherException) (Inr ())"
  have pid: "getitem (Some port_p1) ''id'' = Inr (PyStr ''p1'')"
    by (simp add: getitem_def dict_getitem_def port_p1_def)
  have l1: "l3_tenant_id ?e1 (ext ?w) = (Inr (PyStr ''l3admin''), [row_p1])"
    by (simp add: stub_env_def)
  have l2: "l3_tenant_id ?e2 (ext ?w) = (Inr (PyStr ''l3admin''), [row_p1])"
    by (simp add: stub_env_def)
  have u1: "update_port ?e1 (elevated user_ctx) (PyStr ''p1'')
              (ownership_reset (PyStr ''l3admin'')) [row_p1] = (Inl NeutronException, [row_p1])"
    by (simp add: stub_env_def)
  have u2: "update_port ?e2 (elevated user_ctx) (PyStr ''p1'')
              (ownership_reset (PyStr ''l3admin'')) [row_p1] = (Inr (), [row_p1])"
    by (simp add: stub_env_def)
  have a2: "interface_attach ?e2 (PyStr ''hd1'') (PyStr ''p1'') [row_p1] =
              (Inl OtherException, [row_p1])"
    by (simp add: stub_env_def)
  note T1 = setup_swallows_attach_errors_only [OF l1 pid, of user_ctx "PyStr ''hd1''"]
  note T2 = setup_swallows_attach_errors_only [OF l2 pid, of user_ctx "PyStr ''hd1''"]
  from T1 u1 have first: "setup_logical_port_connectivity ?e1 user_ctx (Some port_p1)
      (PyStr ''hd1'') ?w =
      (Inl NeutronException,
       \<lparr>ext = [row_p1], trace = trace ?w @
          [L3_tenant_id,
           Update_port (elevated user_ctx) (PyStr ''p1'')
             (ownership_reset (PyStr ''l3admin''))]\<rparr>)"
    by blast
  from T2 u2 have second: "fst (setup_logical_port_connectivity ?e2 user_ctx (Some port_p1)
      (PyStr ''hd1'') ?w) = Inr ()"
    by blast
  from T2 u2 a2 have third: "snd (setup_logical_port_connectivity ?e2 user_ctx (Some port_p1)
      (PyStr ''hd1'') ?w) =
      \<lparr>ext = [row_p1], trace = trace ?w @
         [L3_tenant_id,
          Update_port (elevated user_ctx) (PyStr ''p1'') (ownership_reset (PyStr ''l3admin'')),
          Interface_attach (PyStr ''hd1'') (PyStr ''p1''), Log Error]\<rparr>"
    by blast
  from first second third show ?thesis by simp
qed

text \<open>
  The claim as it was stated fails when the registry's \<^verbatim>\<open>update_port\<close> raises: the
  call raises the registry's error, and the trace holds no message.
\<close>

theorem setup_update_error_propagates_counterexample:
  "setup_logical_port_connectivity failing_env user_ctx (Some port_p1) (PyStr ''hd1'')
     \<lparr>ext = [row_p1], trace = []\<rparr> =
   (Inl NeutronException,
    \<lparr>ext = [row_p1], trace =
       [L3_tenant_id,
        Update_port (elevated user_ctx) (PyStr ''p1'')
          (ownership_reset (PyStr ''l3admin''))]\<rparr>)"
  by (simp add: setup_logical_port_connectivity_def call_def failing_env_def stub_env_def
      getitem_def dict_getitem_def port_p1_def)

section \<open>Properties of detaching a logical port\<close>

lemma dict_get_missing:
  "(dict_get d k = PyNone) = (map_of d k = None \<or> map_of d k = Some PyNone)"
  by (cases "map_of d k") (simp_all add: dict_get_def)

lemma dict_getitem_present:
  "dict_get d k \<noteq> PyNone \<Longrightarrow> dict_getitem d k = Inr (dict_get d k)"
  by (cases "map_of d k") (simp_all add: dict_get_def dict_getitem_def)

lemma teardown_guarded:
  "(case port_db of None \<Rightarrow> True | Some d \<Rightarrow> dict_get d ''id'' = PyNone) \<Longrightarrow>
   teardown_logical_port_connectivity env c port_db hd_id w =
     (Inr (), \<lparr>ext = ext w, trace = trace w @ [Log Error]\<rparr>)"
  by (simp add: teardown_logical_port_connectivity_def LOG_def)

lemma teardown_detach:
  assumes "dict_get d ''id'' \<noteq> PyNone"
    and "interface_detach env hd_id (dict_get d ''id'') (ext w) = (r, x)"
  shows "teardown_logical_port_connectivity env c (Some d) hd_id w =
     (Inr (), \<lparr>ext = x, trace = trace w @
        [Interface_detach hd_id (dict_get d ''id''),
         Log (case r of Inl e \<Rightarrow> Error | Inr u \<Rightarrow> Debug)]\<rparr>)"
  using assms dict_getitem_present [OF assms(1)]
  by (cases r)
    (simp_all add: teardown_logical_port_connectivity_def getitem_def call_def LOG_def)

text \<open>
  Claim C7. \<open>teardown_logical_port_connectivity\<close> never raises: every call returns
  normally.
  \<^item> When the port record is \<^verbatim>\<open>None\<close>, or its identifier is missing (the key \<^verbatim>\<open>'id'\<close> is
    absent or holds \<^verbatim>\<open>None\<close>), the only event is one error message: the compute
    client's \<^verbatim>\<open>interface_detach\<close> is not invoked and the collaborators' state is
    unchanged.
  \<^item> Otherwise \<^verbatim>\<open>interface_detach\<close> is invoked once, with the hosting device identifier
    supplied to the call and the port's identifier; when it raises, the error is logged
    as an error and not propagated, and when it returns a debug message is logged.
\<close>

theorem teardown_never_raises:
  "fst (teardown_logical_port_connectivity env c port_db hd_id w) = Inr () \<and>
   snd (teardown_logical_port_connectivity env c port_db hd_id w) =
     (case port_db of
        None \<Rightarrow> \<lparr>ext = ext w, trace = trace w @ [Log Error]\<rparr>
      | Some d \<Rightarrow>
          if map_of d ''id'' = None \<or> map_of d ''id'' = Some PyNone
          then \<lparr>ext = ext w, trace = trace w @ [Log Error]\<rparr>
          else
            (case interface_detach env hd_id (dict_get d ''id'') (ext w) of
               (Inl e, x) \<Rightarrow>
                 \<lparr>ext = x, trace = trace w @
                    [Interface_detach hd_id (dict_get d ''id''), Log Error]\<rparr>
             | (Inr u, x) \<Rightarrow>
                 \<lparr>ext = x, trace = trace w @
                    [Interface_detach hd_id (dict_get d ''id''), Log Debug]\<rparr>))"
proof (cases port_db)
  case None
  then show ?thesis by (simp add: teardown_guarded)
next
  case (Some d)
  show ?thesis
  proof (cases "dict_get d ''id'' = PyNone")
    case True
    with Some have "teardown_logical_port_connectivity env c port_db hd_id w =
        (Inr (), \<lparr>ext = ext w, trace = trace w @ [Log Error]\<rparr>)"
      by (simp add: teardown_guarded)
    with Some True show ?thesis by (simp add: dict_get_missing)
  next
    case False
    obtain r x where det: "interface_detach env hd_id (dict_get d ''id'') (ext w) = (r, x)"
      by (cases "interface_detach env hd_id (dict_get d ''id'') (ext w)")
    from False have present: "\<not> (map_of d ''id'' = None \<or> map_of d ''id'' = Some PyNone)"
      by (simp add: dict_get_missing)
    from teardown_detach [OF False det] Some det present show ?thesis
      by (cases r) simp_all
  qed
qed

theorem teardown_never_raises_witness:
  "teardown_logical_port_connectivity failing_env user_ctx None (PyStr ''hd1'')
     \<lparr>ext = [row_p1], trace = []\<rparr> =
     (Inr (), \<lparr>ext = [row_p1], trace = [Log Error]\<rparr>) \<and>
   teardown_logical_port_connectivity failing_env user_ctx (Some [(''id'', PyNone)])
     (PyStr ''hd1'') \<lparr>ext = [row_p1], trace = []\<rparr> =
     (Inr (), \<lparr>ext = [row_p1], trace = [Log Error]\<rparr>) \<and>
   teardown_logical_port_connectivity failing_env user_ctx (Some [(''name'', PyStr ''x'')])
     (PyStr ''hd1'') \<lparr>ext = [row_p1], trace = []\<rparr> =
     (Inr (), \<lparr>ext = [row_p1], trace = [Log Error]\<rparr>) \<and>
   teardown_logical_port_connectivity failing_env user_ctx (Some port_p1)
     (PyStr ''hd1'') \<lparr>ext = [row_p1], trace = []\<rparr> =
     (Inr (), \<lparr>ext = [row_p1], trace =
        [Interface_detach (PyStr ''hd1'') (PyStr ''p1''), Log Error]\<rparr>) \<and>
   teardown_logical_port_connectivity (stub_env (Inr port_p1) (Inr ()) (Inr ()) (Inr ()))
     user_ctx (Some port_p1) (PyStr ''hd1'') \<lparr>ext = [row_p1], trace = []\<rparr> =
     (Inr (), \<lparr>ext = [row_p1], trace =
        [Interface_detach (PyStr ''hd1'') (PyStr ''p1''), Log Debug]\<rparr>)"
proof -
  let ?w = "\<lparr>ext = [row_p1], trace = []\<rparr> :: port_row list world"
  let ?ok = "stub_env (Inr port_p1) (Inr ()) (Inr ()) (Inr ())"
  have eqI: "\<And>r y. fst r = Inr () \<Longrightarrow> snd r = y \<Longrightarrow>
               r = (Inr () :: exn + unit, y :: port_row list world)"
    by auto
  have a: "teardown_logical_port_connectivity failing_env user_ctx None (PyStr ''hd1'') ?w =
             (Inr (), \<lparr>ext = [row_p1], trace = [Log Error]\<rparr>)"
    using teardown_never_raises [of failing_env user_ctx None "PyStr ''hd1''" ?w]
    by (intro eqI) simp_all
  have b: "teardown_logical_port_connectivity failing_env user_ctx (Some [(''id'', PyNone)])
             (PyStr ''hd1'') ?w = (Inr (), \<lparr>ext = [row_p1], trace = [Log Error]\<rparr>)"
    using teardown_never_raises
      [of failing_env user_ctx "Some [(''id'', PyNone)]" "PyStr ''hd1''" ?w]
    by (intro eqI) simp_all
  have c: "teardown_logical_port_connectivity failing_env user_ctx
             (Some [(''name'', PyStr ''x'')]) (PyStr ''hd1'') ?w =
             (Inr (), \<lparr>ext = [row_p1], trace = [Log Error]\<rparr>)"
    using teardown_never_raises
      [of failing_env user_ctx "Some [(''name'', PyStr ''x'')]" "PyStr ''hd1''" ?w]
    by (intro eqI) simp_all
  have d: "teardown_logical_port_connectivity failing_env user_ctx (Some port_p1)
             (PyStr ''hd1'') ?w =
             (Inr (), \<lparr>ext = [row_p1], trace =
                [Interface_detach (PyStr ''hd1'') (PyStr ''p1''), Log Error]\<rparr>)"
    using teardown_never_raises [of failing_env user_ctx "Some port_p1" "PyStr ''hd1''" ?w]
    by (intro eqI) (simp_all add: port_p1_def dict_get_def failing_env_def stub_env_def)
  have e: "teardown_logical_port_connectivity ?ok user_ctx (Some port_p1)
             (PyStr ''hd1'') ?w =
             (Inr (), \<lparr>ext = [row_p1], trace =
                [Interface_detach (PyStr ''hd1'') (PyStr ''p1''), Log Debug]\<rparr>)"
    using teardown_never_raises [of ?ok user_ctx "Some port_p1" "PyStr ''hd1''" ?w]
    by (intro eqI) (simp_all add: port_p1_def dict_get_def stub_env_def)
  from a b c d e show ?thesis by simp
qed

end
